theory Spec2Isabelle
  imports Complex_Main "HOL-Library.Multiset"
begin

section \<open>Numbers of the host language\<close>

text \<open>
  The matcher computes with the numbers of JavaScript. They are idealised here: a finite
  number is a real (no rounding, no overflow), and \<open>NaN\<close> is the one non-number that the
  program can produce. An array read past the end gives \<open>undefined\<close>, which arithmetic
  turns into \<open>NaN\<close>. The quotient of a non-zero number by zero (an infinity in the
  source's arithmetic) is not represented: lemma \<open>zero_divisor_zero_dividend\<close> below shows
  that the only division of the program never meets it. What is proved about the order of
  two scores that are close to each other is proved of this exact arithmetic; rounding can
  make two such scores equal or swap them.
\<close>

datatype jsnum = Num real | NaN

fun jsadd :: "jsnum \<Rightarrow> jsnum \<Rightarrow> jsnum" where
  "jsadd (Num a) (Num b) = Num (a + b)"
| "jsadd _ _ = NaN"

fun jssub :: "jsnum \<Rightarrow> jsnum \<Rightarrow> jsnum" where
  "jssub (Num a) (Num b) = Num (a - b)"
| "jssub _ _ = NaN"

fun jsmul :: "jsnum \<Rightarrow> jsnum \<Rightarrow> jsnum" where
  "jsmul (Num a) (Num b) = Num (a * b)"
| "jsmul _ _ = NaN"

fun jsdiv :: "jsnum \<Rightarrow> jsnum \<Rightarrow> jsnum" where
  "jsdiv (Num a) (Num b) = (if b = 0 then NaN else Num (a / b))"
| "jsdiv _ _ = NaN"

fun jssqrt :: "jsnum \<Rightarrow> jsnum" where
  "jssqrt (Num a) = (if a < 0 then NaN else Num (sqrt a))"
| "jssqrt NaN = NaN"

text \<open>\<open>vecB[i]\<close>: the element, or \<open>undefined\<close> (here already \<open>NaN\<close>) past the end.\<close>

definition at_index :: "real list \<Rightarrow> nat \<Rightarrow> jsnum" where
  "at_index xs i = (if i < length xs then Num (xs ! i) else NaN)"

text \<open>\<open>Array.prototype.reduce\<close> with an initial value; the callback sees the index.\<close>

fun reduce_from :: "(jsnum \<Rightarrow> real \<Rightarrow> nat \<Rightarrow> jsnum) \<Rightarrow> nat \<Rightarrow> real list \<Rightarrow> jsnum \<Rightarrow> jsnum" where
  "reduce_from f i [] acc = acc"
| "reduce_from f i (a # as) acc = reduce_from f (Suc i) as (f acc a i)"

definition reduce :: "(jsnum \<Rightarrow> real \<Rightarrow> nat \<Rightarrow> jsnum) \<Rightarrow> real list \<Rightarrow> jsnum \<Rightarrow> jsnum" where
  "reduce f xs init = reduce_from f 0 xs init"

section \<open>The matcher (services/geminiService.ts)\<close>

text \<open>
  \<open>cosineSimilarity\<close>, with its three local constants; \<open>dotProduct\<close> and the two magnitudes
  are the three \<open>reduce\<close> calls of the source.
\<close>

definition dotProduct :: "real list \<Rightarrow> real list \<Rightarrow> jsnum" where
  "dotProduct vecA vecB =
     reduce (\<lambda>sum a i. jsadd sum (jsmul (Num a) (at_index vecB i))) vecA (Num 0)"

definition magnitude :: "real list \<Rightarrow> jsnum" where
  "magnitude vec = jssqrt (reduce (\<lambda>sum a i. jsadd sum (jsmul (Num a) (Num a))) vec (Num 0))"

definition cosineSimilarity :: "real list \<Rightarrow> real list \<Rightarrow> jsnum" where
  "cosineSimilarity vecA vecB =
     (let dotP = dotProduct vecA vecB;
          magnitudeA = magnitude vecA;
          magnitudeB = magnitude vecB
      in jsdiv dotP (jsmul magnitudeA magnitudeB))"

text \<open>
  A \<open>DocumentChunk\<close>. The field \<open>embedding\<close> is optional in the source; \<open>None\<close> is the
  absent field, \<open>Some []\<close> a stored empty array (which the source's truth test
  \<open>chunk.embedding ? \<dots>\<close> takes for present).
\<close>

record DocumentChunk =
  c_id :: string
  c_docId :: string
  c_docTitle :: string
  c_text :: string
  c_embedding :: "real list option"

text \<open>
  \<open>Array.prototype.sort\<close> with a comparison function. The language makes the sort stable
  and reads a comparator result that is \<open>NaN\<close> as \<open>+0\<close>; for a consistent comparator the
  result is then determined, and a stable insertion sort computes it: an element moves
  behind its neighbour only when the comparator is positive. When a score is \<open>NaN\<close> the
  comparator is not consistent and the language leaves the order to the implementation;
  the model then gives the order this insertion sort produces.
\<close>

fun cmp_positive :: "jsnum \<Rightarrow> bool" where
  "cmp_positive (Num v) = (0 < v)"
| "cmp_positive NaN = False"

fun insert_stable :: "('a \<Rightarrow> 'a \<Rightarrow> jsnum) \<Rightarrow> 'a \<Rightarrow> 'a list \<Rightarrow> 'a list" where
  "insert_stable cmp x [] = [x]"
| "insert_stable cmp x (y # ys) =
     (if cmp_positive (cmp x y) then y # insert_stable cmp x ys else x # y # ys)"

fun array_sort :: "('a \<Rightarrow> 'a \<Rightarrow> jsnum) \<Rightarrow> 'a list \<Rightarrow> 'a list" where
  "array_sort cmp [] = []"
| "array_sort cmp (x # xs) = insert_stable cmp x (array_sort cmp xs)"

text \<open>
  The score given to a chunk by \<open>findBestMatches\<close>:
  \<open>chunk.embedding ? cosineSimilarity(queryEmbedding, chunk.embedding) : -1\<close>.
\<close>

definition chunk_score :: "real list \<Rightarrow> DocumentChunk \<Rightarrow> jsnum" where
  "chunk_score queryEmbedding chunk =
     (case c_embedding chunk of
        Some e \<Rightarrow> cosineSimilarity queryEmbedding e
      | None \<Rightarrow> Num (- 1))"

text \<open>\<open>topK\<close> is a count; \<open>slice(0, topK)\<close> is then \<open>take topK\<close>.\<close>

definition findBestMatches :: "real list \<Rightarrow> DocumentChunk list \<Rightarrow> nat \<Rightarrow> DocumentChunk list" where
  "findBestMatches queryEmbedding chunks topK =
     (let scored = map (\<lambda>chunk. (chunk, chunk_score queryEmbedding chunk)) chunks;
          sorted_scored = array_sort (\<lambda>a b. jssub (snd b) (snd a)) scored
      in map fst (take topK sorted_scored))"

text \<open>Vocabulary for the statements about the matcher.\<close>

definition has_embedding :: "DocumentChunk \<Rightarrow> bool" where
  "has_embedding chunk = (c_embedding chunk \<noteq> None)"

fun num_of :: "jsnum \<Rightarrow> real" where
  "num_of (Num v) = v"
| "num_of NaN = 0"

text \<open>The comparison \<open>a >= b\<close> of the host language: false as soon as one side is \<open>NaN\<close>.\<close>

fun js_ge :: "jsnum \<Rightarrow> jsnum \<Rightarrow> bool" where
  "js_ge (Num a) (Num b) = (b \<le> a)"
| "js_ge _ _ = False"

definition pair_sum :: "real list \<Rightarrow> real list \<Rightarrow> real" where
  "pair_sum xs ys = (\<Sum>(a, b)\<leftarrow>zip xs ys. a * b)"

section \<open>Strings and the chunker (services/pdfService.ts)\<close>

text \<open>
  A string is a list of characters; \<open>length\<close> counts them as the source's \<open>.length\<close> counts
  code units. The characters of this model are the code units below 256.

  \<open>is_space\<close> is the class \<open>\s\<close> of the regular expressions and the set that \<open>trim\<close> strips:
  tab, line feed, vertical tab, form feed, carriage return, space and no-break space.
\<close>

definition is_space :: "char \<Rightarrow> bool" where
  "is_space c = (c \<in> set [CHR 0x09, CHR 0x0A, CHR 0x0B, CHR 0x0C, CHR 0x0D, CHR 0x20, CHR 0xA0])"

definition trim :: "string \<Rightarrow> string" where
  "trim s = rev (dropWhile is_space (rev (dropWhile is_space s)))"

text \<open>The class \<open>[.!?]\<close>.\<close>

definition is_terminator :: "char \<Rightarrow> bool" where
  "is_terminator c = (c \<in> set ''.!?'')"

text \<open>
  \<open>text.match(/[^.!?]+[.!?]+|\s\n/g)\<close>: all matches, left to right. At a position the first
  alternative matches when the longest run of non-terminators is not empty and a terminator
  follows it (giving the run up by backtracking never helps: the character after a shorter
  run is a non-terminator); it then takes all the terminators that follow. Otherwise the
  second alternative matches a white-space character followed by a line feed. Otherwise
  the position is skipped: the character belongs to no match.
\<close>

function match_sentences :: "string \<Rightarrow> string list" where
  "match_sentences [] = []"
| "match_sentences (c # cs) =
     (let run = takeWhile (\<lambda>x. \<not> is_terminator x) (c # cs);
          rest = dropWhile (\<lambda>x. \<not> is_terminator x) (c # cs)
      in if run \<noteq> [] \<and> rest \<noteq> []
         then (run @ takeWhile is_terminator rest) # match_sentences (dropWhile is_terminator rest)
         else (case cs of
                 n # cs' \<Rightarrow>
                   if is_space c \<and> n = CHR 0x0A then [c, n] # match_sentences cs'
                   else match_sentences cs
               | [] \<Rightarrow> match_sentences cs))"
  by pat_completeness auto
termination
proof (relation "measure length")
  fix c :: char and cs run rest
  assume "run = takeWhile (\<lambda>x. \<not> is_terminator x) (c # cs)"
    and rest: "rest = dropWhile (\<lambda>x. \<not> is_terminator x) (c # cs)"
    and "run \<noteq> [] \<and> rest \<noteq> []"
  then have "\<not> is_terminator c" by (auto split: if_splits)
  then have "length rest \<le> length cs"
    using rest length_dropWhile_le [of "\<lambda>x. \<not> is_terminator x" cs] by simp
  moreover have "length (dropWhile is_terminator rest) \<le> length rest"
    by (rule length_dropWhile_le)
  ultimately show "(dropWhile is_terminator rest, c # cs) \<in> measure length" by simp
qed auto

declare match_sentences.simps [simp del]

text \<open>The loop of \<open>chunkText\<close>: the state is the current chunk and the chunks pushed so far.\<close>

fun chunk_loop :: "int \<Rightarrow> string list \<Rightarrow> string \<Rightarrow> string list \<Rightarrow> string list \<times> string" where
  "chunk_loop chunkSize [] currentChunk chunks = (chunks, currentChunk)"
| "chunk_loop chunkSize (sentence # sentences) currentChunk chunks =
     (if chunkSize < int (length (currentChunk @ sentence))
      then chunk_loop chunkSize sentences sentence (chunks @ [trim currentChunk])
      else chunk_loop chunkSize sentences (currentChunk @ sentence) chunks)"

text \<open>\<open>match\<close> gives \<open>null\<close> when nothing matches; the source then takes the whole text.\<close>

definition chunkText :: "string \<Rightarrow> int \<Rightarrow> string list" where
  "chunkText text chunkSize =
     (let sentences = (case match_sentences text of [] \<Rightarrow> [text] | ms \<Rightarrow> ms);
          (chunks, currentChunk) = chunk_loop chunkSize sentences [] [];
          flushed = (if trim currentChunk \<noteq> [] then chunks @ [trim currentChunk] else chunks)
      in filter (\<lambda>c. 0 < length c) flushed)"

text \<open>
  Vocabulary for the statements about the chunker: the content of a text is what is left
  when the white space is taken out, and a text is made of sentences when it starts with
  a non-terminator and ends with a terminator.
\<close>

definition content_of :: "string \<Rightarrow> string" where
  "content_of s = filter (\<lambda>c. \<not> is_space c) s"

definition made_of_sentences :: "string \<Rightarrow> bool" where
  "made_of_sentences s = (s \<noteq> [] \<and> \<not> is_terminator (hd s) \<and> is_terminator (last s))"

section \<open>The embedding client (services/geminiService.ts)\<close>

text \<open>
  The remote call \<open>ai.models.embedContent\<close> is outside the program. One call either gives
  a response with the vector, a response without one, or throws. The service may answer
  differently from call to call: it is a function of the texts already sent during this
  run of \<open>getEmbeddings\<close> and of the text sent now.
\<close>

datatype embed_outcome = Values "real list" | NoValues | Throws

type_synonym embed_service = "string list \<Rightarrow> string \<Rightarrow> embed_outcome"

text \<open>
  The loop of \<open>getEmbeddings\<close>, with the array \<open>embeddings\<close> and, beside it, the texts that
  went to the remote service (the calls made). \<open>!text || !text.trim()\<close> holds of the empty
  and of the all-white-space text.
\<close>

fun getEmbeddings_loop ::
  "embed_service \<Rightarrow> string list \<Rightarrow> real list list \<Rightarrow> string list \<Rightarrow> real list list \<times> string list" where
  "getEmbeddings_loop embedContent [] embeddings calls = (embeddings, calls)"
| "getEmbeddings_loop embedContent (t # texts) embeddings calls =
     (if t = [] \<or> trim t = []
      then getEmbeddings_loop embedContent texts (embeddings @ [[]]) calls
      else (case embedContent calls t of
              Values v \<Rightarrow> getEmbeddings_loop embedContent texts (embeddings @ [v]) (calls @ [t])
            | NoValues \<Rightarrow> getEmbeddings_loop embedContent texts (embeddings @ [[]]) (calls @ [t])
            | Throws \<Rightarrow> getEmbeddings_loop embedContent texts (embeddings @ [[]]) (calls @ [t])))"

definition getEmbeddings :: "embed_service \<Rightarrow> string list \<Rightarrow> real list list \<times> string list" where
  "getEmbeddings embedContent texts = getEmbeddings_loop embedContent texts [] []"

text \<open>Vocabulary for the statements about the embedding client.\<close>

definition is_blank :: "string \<Rightarrow> bool" where
  "is_blank t = (trim t = [])"

definition vector_of :: "embed_outcome \<Rightarrow> real list" where
  "vector_of r = (case r of Values v \<Rightarrow> v | NoValues \<Rightarrow> [] | Throws \<Rightarrow> [])"

text \<open>What one pass of the loop adds for the text \<open>t\<close>, after the calls \<open>calls\<close>.\<close>

definition item_vector :: "embed_service \<Rightarrow> string list \<Rightarrow> string \<Rightarrow> real list" where
  "item_vector svc calls t = (if is_blank t then [] else vector_of (svc calls t))"

definition item_calls :: "string \<Rightarrow> string list" where
  "item_calls t = (if is_blank t then [] else [t])"

section \<open>The conversation (components/ChatInterface.tsx)\<close>

datatype Role = User | Model

record Message =
  m_id :: string
  m_role :: Role
  m_content :: string
  m_timestamp :: nat
  m_language :: "string option"
  m_citations :: "string list option"
  m_isAudio :: "bool option"
  m_shareContent :: "string option"

record Lead =
  l_id :: string
  l_phoneNumber :: string
  l_queryContext :: string
  l_timestamp :: nat

record AppSettings =
  appName :: string
  appDescription :: string

record FunctionResponse =
  fr_id :: string
  fr_name :: string
  fr_result :: string

text \<open>What \<open>generateRAGResponse\<close> gives back.\<close>

record RagResponse =
  r_text :: string
  r_language :: string
  r_citations :: "string list option"

text \<open>
  The collaborators outside the component: the remote embedding call, and the answer
  generator \<open>generateRAGResponse\<close>, taken as a function of the prompt and the context
  chunks; \<open>None\<close> stands for a call that throws, which the callers catch.
\<close>

record Env =
  embedContent :: embed_service
  generateRAGResponse :: "string \<Rightarrow> DocumentChunk list \<Rightarrow> RagResponse option"

text \<open>
  The state the handlers read and write: the React state of \<open>ChatInterface\<close>, the store
  \<open>mockDB\<close>, the calls made so far (texts sent to the embedding service, invocations of
  \<open>findBestMatches\<close> with their query vector and \<open>topK\<close>, invocations of
  \<open>generateRAGResponse\<close>), and what the live session played and sent back.
  A handler is run to its end before the next event is taken, and \<open>now\<close> is the reading of
  the clock, the same for every \<open>Date.now()\<close> of one run.
\<close>

record World =
  messages :: "Message list"
  input :: string
  isLoading :: bool
  waitingForNumber :: bool
  settings :: AppSettings
  db_chunks :: "DocumentChunk list"
  db_leads :: "Lead list"
  db_settings :: AppSettings
  embed_calls :: "string list"
  matcher_calls :: "(real list \<times> nat) list"
  rag_calls :: "(string \<times> DocumentChunk list) list"
  played_audio :: "string list"
  tool_responses :: "FunctionResponse list"

text \<open>The state of a freshly mounted component (the \<open>useState\<close> initial values) over an empty store.\<close>

definition initial_world :: World where
  "initial_world =
     \<lparr>messages = [], input = [], isLoading = False, waitingForNumber = False,
      settings = \<lparr>appName = ''Samastha AI'', appDescription = []\<rparr>,
      db_chunks = [], db_leads = [],
      db_settings = \<lparr>appName = ''Samastha AI'', appDescription = []\<rparr>,
      embed_calls = [], matcher_calls = [], rag_calls = [],
      played_audio = [], tool_responses = []\<rparr>"

definition newline :: string where
  "newline = [CHR 0x0A]"

text \<open>\<open>Number.prototype.toString\<close> on a natural number: its decimal digits.\<close>

definition digit_char :: "nat \<Rightarrow> char" where
  "digit_char d = ''0123456789'' ! d"

fun toString :: "nat \<Rightarrow> string" where
  "toString n = (if n < 10 then [digit_char n] else toString (n div 10) @ [digit_char (n mod 10)])"

declare toString.simps [simp del]

text \<open>The characters kept by \<open>text.replace(/[^0-9]/g, '')\<close>.\<close>

definition is_digit :: "char \<Rightarrow> bool" where
  "is_digit c = (c \<in> set ''0123456789'')"

text \<open>\<open>response.text.replace(/\*\*/g, '')\<close>: every pair of asterisks, left to right, is removed.\<close>

fun remove_bold :: "string \<Rightarrow> string" where
  "remove_bold (a # b # cs) =
     (if a = CHR ''*'' \<and> b = CHR ''*'' then remove_bold cs else a # remove_bold (b # cs))"
| "remove_bold cs = cs"

text \<open>A message with the optional fields absent.\<close>

definition plain_message :: "string \<Rightarrow> Role \<Rightarrow> string \<Rightarrow> nat \<Rightarrow> Message" where
  "plain_message i r c t =
     \<lparr>m_id = i, m_role = r, m_content = c, m_timestamp = t, m_language = None,
      m_citations = None, m_isAudio = None, m_shareContent = None\<rparr>"

text \<open>\<open>loadAndSync\<close>: the settings are taken from the store; an empty conversation gets the welcome message.\<close>

definition loadAndSync :: "nat \<Rightarrow> World \<Rightarrow> World" where
  "loadAndSync now w =
     (let current = db_settings w;
          w1 = w\<lparr>settings := current\<rparr>;
          name = (if appName current = [] then ''Samastha AI'' else appName current);
          description =
            (if appDescription current \<noteq> [] \<and> 0 < length (trim (appDescription current))
             then appDescription current
             else ''the AI assistant for **Samastha Kerala Jamiyyathul Ulama**. How can I help you today?'')
      in if length (messages w1) = 0
         then w1\<lparr>messages :=
                [plain_message ''welcome'' Model
                   (''**Assalamu Alaikum.**'' @ newline @ newline @ ''I am '' @ name @ '', '' @ description)
                   now]\<rparr>
         else w1)"

text \<open>
  \<open>processQuery\<close>: the normal turn. The user message is appended, the query is embedded,
  the matcher runs over all chunks of the store when the embedding is not empty, the
  answer is generated and appended with the citations.
\<close>

definition processQuery :: "Env \<Rightarrow> nat \<Rightarrow> string \<Rightarrow> bool \<Rightarrow> World \<Rightarrow> World" where
  "processQuery env now queryText isVoice w =
     (let userMsg = (plain_message (toString now) User queryText now)\<lparr>m_isAudio := Some isVoice\<rparr>;
          w1 = w\<lparr>messages := messages w @ [userMsg], isLoading := True\<rparr>;
          (queryEmbedding, sent) = getEmbeddings (embedContent env) [queryText];
          w2 = w1\<lparr>embed_calls := embed_calls w1 @ sent\<rparr>;
          allChunks = db_chunks w2;
          guard = (0 < length queryEmbedding \<and> 0 < length (queryEmbedding ! 0));
          relevantChunks = (if guard then findBestMatches (queryEmbedding ! 0) allChunks 5 else []);
          w3 = (if guard then w2\<lparr>matcher_calls := matcher_calls w2 @ [(queryEmbedding ! 0, 5)]\<rparr> else w2);
          w4 = w3\<lparr>rag_calls := rag_calls w3 @ [(queryText, relevantChunks)]\<rparr>
      in case generateRAGResponse env queryText relevantChunks of
           Some response \<Rightarrow>
             w4\<lparr>messages := messages w4 @
                   [(plain_message (toString (now + 1)) Model (r_text response) now)
                      \<lparr>m_language := Some (r_language response),
                       m_citations := Some (map c_docTitle relevantChunks @
                          (case r_citations response of Some cs \<Rightarrow> cs | None \<Rightarrow> []))\<rparr>],
                 isLoading := False\<rparr>
         | None \<Rightarrow>
             w4\<lparr>messages := messages w4 @
                   [plain_message (toString (now + 1)) Model
                      ''I apologize, but I encountered an error. Please try again.'' now],
                 isLoading := False\<rparr>)"

text \<open>
  \<open>messages.filter(m => m.role === 'model').slice(-1)[0]?.content || "User asked for details"\<close>:
  the content of the last model message; the default when there is none or it is empty.
\<close>

definition lastContext :: "Message list \<Rightarrow> string" where
  "lastContext msgs =
     (case rev (filter (\<lambda>m. m_role m = Model) msgs) of
        [] \<Rightarrow> ''User asked for details''
      | m # _ \<Rightarrow> if m_content m = [] then ''User asked for details'' else m_content m)"

text \<open>
  \<open>messages.slice().reverse().find(m => m.role === 'user' && m.content !== text)\<close> and the
  choice of the topic.
\<close>

definition topicQuery :: "Message list \<Rightarrow> string \<Rightarrow> string" where
  "topicQuery msgs text =
     (case find (\<lambda>m. m_role m = User \<and> m_content m \<noteq> text) (rev msgs) of
        Some lastUserMsg \<Rightarrow> m_content lastUserMsg
      | None \<Rightarrow> ''Samastha Kerala Jamiyyathul Ulama'')"

definition detailedPrompt :: "string \<Rightarrow> string" where
  "detailedPrompt topic =
     newline @ replicate 16 CHR '' '' @ ''The user has requested a detailed report on: ''
       @ [CHR 0x22] @ topic @ [CHR 0x22] @ ''.''
     @ newline @ replicate 16 CHR '' '' @ ''Provide a comprehensive explanation using the context provided.''
     @ newline @ replicate 16 CHR '' ''
       @ ''Structure it clearly with a Title, Introduction, Key Points (bulleted), and Conclusion.''
     @ newline @ replicate 13 CHR '' ''"

text \<open>
  The first three characters of the report message are not ASCII in the source file;
  they are kept as the bytes the file holds.
\<close>

definition verified_mark :: string where
  "verified_mark = [CHR 0xC3, CHR 0xA2, CHR 0xC5, CHR 0x93, CHR 0xE2, CHR 0x80, CHR 0xA6]"

definition report_content :: "string \<Rightarrow> string \<Rightarrow> string" where
  "report_content topic answer =
     verified_mark @ '' **Lead Verified.**'' @ newline @ newline
     @ ''Here is your detailed report on **'' @ [CHR 0x22] @ topic @ [CHR 0x22] @ ''**:''
     @ newline @ newline @ ''---'' @ newline @ newline @ answer"

text \<open>
  \<open>handleSend\<close>. A blank input is ignored. While the component waits for a contact number
  the input is validated and, when valid, the lead is stored and the detailed report is
  produced; otherwise the input goes to \<open>processQuery\<close>. In the lead branch \<open>messages\<close> is
  the list the handler was rendered with: it does not hold the user message just appended.
\<close>

definition handleSend :: "Env \<Rightarrow> nat \<Rightarrow> World \<Rightarrow> World" where
  "handleSend env now w =
     (if trim (input w) = [] then w
      else
        let text = input w;
            w0 = w\<lparr>input := []\<rparr>
        in if waitingForNumber w then
             (let digitsOnly = filter is_digit text
              in if length digitsOnly < 10 \<or> 15 < length digitsOnly
                 then w0\<lparr>messages := messages w0 @
                         [plain_message (toString now) Model
                            ''Please enter a valid phone number (e.g., +91 95265 69313).'' now]\<rparr>
                 else
                   let w1 = w0\<lparr>waitingForNumber := False,
                               messages := messages w0 @ [plain_message (toString now) User text now]\<rparr>;
                       w2 = w1\<lparr>db_leads := db_leads w1 @
                               [\<lparr>l_id = toString now, l_phoneNumber = text,
                                 l_queryContext = take 100 (lastContext (messages w)) @ ''...'',
                                 l_timestamp = now\<rparr>],
                             isLoading := True\<rparr>;
                       topic = topicQuery (messages w) text;
                       (queryEmbedding, sent) = getEmbeddings (embedContent env) [topic];
                       w3 = w2\<lparr>embed_calls := embed_calls w2 @ sent\<rparr>;
                       allChunks = db_chunks w3;
                       guard = (0 < length queryEmbedding \<and> 0 < length (queryEmbedding ! 0));
                       relevantChunks =
                         (if guard then findBestMatches (queryEmbedding ! 0) allChunks 8 else []);
                       w4 = (if guard
                             then w3\<lparr>matcher_calls := matcher_calls w3 @ [(queryEmbedding ! 0, 8)]\<rparr>
                             else w3);
                       w5 = w4\<lparr>rag_calls := rag_calls w4 @ [(detailedPrompt topic, relevantChunks)]\<rparr>
                   in case generateRAGResponse env (detailedPrompt topic) relevantChunks of
                        Some response \<Rightarrow>
                          w5\<lparr>messages := messages w5 @
                                [(plain_message (''report-'' @ toString now) Model
                                    (report_content topic (r_text response)) now)
                                   \<lparr>m_shareContent :=
                                      Some (remove_bold (r_text response) @ newline @ newline
                                            @ ''Generated by '' @ appName (settings w))\<rparr>],
                              isLoading := False\<rparr>
                      | None \<Rightarrow>
                          w5\<lparr>messages := messages w5 @
                                [plain_message (toString now) Model ''Error generating detailed report.'' now],
                              isLoading := False\<rparr>)
           else processQuery env now text False w0)"

definition handleKnowMore :: "nat \<Rightarrow> World \<Rightarrow> World" where
  "handleKnowMore now w =
     w\<lparr>messages := messages w @
          [plain_message (toString now) Model
             ''To generate a **Detailed Report** for you, please verify your **Mobile Number**.'' now],
       waitingForNumber := True\<rparr>"

text \<open>
  Vocabulary for the statements about the turns: the retrieval pipeline in the spec's words
  (embed the query; with an empty embedding the match set is empty, otherwise the matcher
  runs over the store with the given \<open>topK\<close>).
\<close>

definition query_embedding :: "Env \<Rightarrow> string \<Rightarrow> real list" where
  "query_embedding env q = item_vector (embedContent env) [] q"

definition retrieve :: "Env \<Rightarrow> DocumentChunk list \<Rightarrow> string \<Rightarrow> nat \<Rightarrow> DocumentChunk list" where
  "retrieve env store q topK =
     (if query_embedding env q = [] then [] else findBestMatches (query_embedding env q) store topK)"

definition digit_count :: "string \<Rightarrow> nat" where
  "digit_count s = length (filter is_digit s)"

section \<open>The live session (connectLiveSession)\<close>

text \<open>
  \<open>connectLiveSession\<close> is in the later version of the service file (\<open>src/unnamed/part_002\<close>),
  which has the same \<open>getEmbeddings\<close>, \<open>cosineSimilarity\<close> and \<open>findBestMatches\<close> as
  \<open>services/geminiService.ts\<close>.
\<close>

record FunctionCall =
  fc_id :: string
  fc_name :: string
  fc_query :: string

record LiveMessage =
  lm_audioData :: "string option"
  lm_toolCall :: "FunctionCall list option"

text \<open>\<open>Array.prototype.join\<close>.\<close>

fun join :: "string \<Rightarrow> string list \<Rightarrow> string" where
  "join sep [] = []"
| "join sep [x] = x"
| "join sep (x # y # ys) = x @ sep @ join sep (y # ys)"

text \<open>
  The body run for one function call named \<open>search_knowledge_base\<close>. \<open>embeddings[0]\<close> is read
  without a test; \<open>getEmbeddings\<close> gives one vector for the one text, so the read never
  fails (the first case below is there for the shape of the data only: the source would
  read \<open>undefined\<close>, and its \<open>catch\<close> would log and send nothing).
\<close>

definition search_knowledge_base :: "Env \<Rightarrow> FunctionCall \<Rightarrow> World \<Rightarrow> World" where
  "search_knowledge_base env fc w =
     (let query = fc_query fc;
          (embeddings, sent) = getEmbeddings (embedContent env) [query];
          w1 = w\<lparr>embed_calls := embed_calls w @ sent\<rparr>;
          chunks = db_chunks w1
      in case embeddings of
           [] \<Rightarrow> w1
         | e # _ \<Rightarrow>
             let matches = findBestMatches e chunks 3;
                 joined = join (newline @ newline) (map c_text matches);
                 resultText = (if joined = [] then ''No relevant documents found.'' else joined)
             in w1\<lparr>matcher_calls := matcher_calls w1 @ [(e, 3)],
                   tool_responses := tool_responses w1 @
                     [\<lparr>fr_id = fc_id fc, fr_name = fc_name fc, fr_result = resultText\<rparr>]\<rparr>)"

fun functionCalls_loop :: "Env \<Rightarrow> FunctionCall list \<Rightarrow> World \<Rightarrow> World" where
  "functionCalls_loop env [] w = w"
| "functionCalls_loop env (fc # fcs) w =
     functionCalls_loop env fcs
       (if fc_name fc = ''search_knowledge_base'' then search_knowledge_base env fc w else w)"

text \<open>\<open>onmessage\<close>: audio data, when there is some, goes to the playback callback; then the tool calls.\<close>

definition onmessage :: "Env \<Rightarrow> LiveMessage \<Rightarrow> World \<Rightarrow> World" where
  "onmessage env message w =
     (let w1 = (case lm_audioData message of
                  Some audioData \<Rightarrow>
                    if audioData \<noteq> [] then w\<lparr>played_audio := played_audio w @ [audioData]\<rparr> else w
                | None \<Rightarrow> w)
      in case lm_toolCall message of
           Some functionCalls \<Rightarrow> functionCalls_loop env functionCalls w1
         | None \<Rightarrow> w1)"

section \<open>Concrete data for the examples\<close>

text \<open>
  Concrete data for the examples: collaborators that always fail, and the state after the
  welcome message and one request for the contact number.
\<close>

definition failing_env :: Env where
  "failing_env = \<lparr>embedContent = (\<lambda>calls t. Throws), generateRAGResponse = (\<lambda>prompt cs. None)\<rparr>"

definition awaiting_world :: World where
  "awaiting_world = handleKnowMore 2 (loadAndSync 1 initial_world)"

text \<open>
  A user who sends a number as an ordinary query, asks for the detailed report, and then
  submits the same number as the contact.
\<close>

definition repeated_number_world :: World where
  "repeated_number_world =
     (handleKnowMore 2 (handleSend failing_env 1 (initial_world\<lparr>input := ''9526569313''\<rparr>)))
       \<lparr>input := ''9526569313''\<rparr>"

text \<open>
  A store with one chunk, collaborators that embed every text as \<open>[1]\<close> and answer every
  prompt with the same text, and the state after one question and the request for the
  contact number.
\<close>

definition history_chunk :: DocumentChunk where
  "history_chunk =
     \<lparr>c_id = ''chunk-1'', c_docId = ''seed-1'', c_docTitle = ''Samastha History Overview'',
      c_text = ''Samastha was established in 1926.'', c_embedding = Some [1]\<rparr>"

definition answering_env :: Env where
  "answering_env =
     \<lparr>embedContent = (\<lambda>calls t. Values [1]),
      generateRAGResponse =
        (\<lambda>prompt cs. Some \<lparr>r_text = ''In 1926.'', r_language = ''Detected'', r_citations = None\<rparr>)\<rparr>"

definition asked_world :: World where
  "asked_world =
     (handleKnowMore 2
        (handleSend answering_env 1
           (initial_world\<lparr>db_chunks := [history_chunk], input := ''When was Samastha founded?''\<rparr>)))
       \<lparr>input := ''+91 95265 69313''\<rparr>"

text \<open>
  The tool's result in the spec's words: the texts of the top three matches for the
  embedded query, concatenated, or the sentinel when that is empty.
\<close>

definition tool_result :: "Env \<Rightarrow> DocumentChunk list \<Rightarrow> string \<Rightarrow> string" where
  "tool_result env store query =
     (if join (newline @ newline) (map c_text (findBestMatches (query_embedding env query) store 3)) = []
      then ''No relevant documents found.''
      else join (newline @ newline) (map c_text (findBestMatches (query_embedding env query) store 3)))"


definition founding_chunk :: DocumentChunk where
  "founding_chunk =
     \<lparr>c_id = ''chunk-1'', c_docId = ''seed-1'', c_docTitle = ''History'',
      c_text = ''Samastha was established in 1926.'', c_embedding = Some [0, 1]\<rparr>"


definition moon_call :: FunctionCall where
  "moon_call = \<lparr>fc_id = ''call-7'', fc_name = ''search_knowledge_base'', fc_query = ''moon sighting''\<rparr>"



text \<open>
  A voice query recorded before the request for the contact number and answered after it:
  the recorder's \<open>onstop\<close> hands the audio to the \<open>onAudioCaptured\<close> of the render in which
  recording began, where no number was awaited, so \<open>processQuery\<close> runs although the
  component now waits. The answer is longer than 100 characters.
\<close>

definition long_answer :: string where
  "long_answer = ''Samastha Kerala Jamiyyathul Ulama was established in 1926 to propagate the teachings of Islam and runs thousands of madrasas.''"

definition long_answer_env :: Env where
  "long_answer_env =
     \<lparr>embedContent = (\<lambda>calls t. Throws),
      generateRAGResponse =
        (\<lambda>prompt cs. Some \<lparr>r_text = long_answer, r_language = ''Detected'', r_citations = None\<rparr>)\<rparr>"

definition answered_while_awaiting :: World where
  "answered_while_awaiting =
     (processQuery long_answer_env 3 ''When was Samastha founded?'' True awaiting_world)
       \<lparr>input := ''+91 95265 69313''\<rparr>"



section \<open>Properties of the matcher\<close>

subsection \<open>The sort keeps the elements\<close>











subsection \<open>What the cosine computes\<close>

lemma sumsq_reduce_from:
  "reduce_from (\<lambda>sum a i. jsadd sum (jsmul (Num a) (Num a))) i xs (Num s)
     = Num (s + (\<Sum>a\<leftarrow>xs. a * a))"
  by (induction xs arbitrary: i s) (auto simp: algebra_simps)

lemma sumsq_nonneg: "0 \<le> (\<Sum>a\<leftarrow>xs. a * (a::real))"
  by (rule sum_list_nonneg) auto

lemma magnitude_eq: "magnitude xs = Num (sqrt (\<Sum>a\<leftarrow>xs. a * a))"
  unfolding magnitude_def reduce_def sumsq_reduce_from
  using sumsq_nonneg [of xs] by simp

lemma dot_reduce_from_NaN:
  "reduce_from (\<lambda>sum a i. jsadd sum (jsmul (Num a) (at_index vecB i))) i xs NaN = NaN"
  by (induction xs arbitrary: i) auto

lemma dot_reduce_from_inside:
  "i + length xs \<le> length vecB \<Longrightarrow>
   reduce_from (\<lambda>sum a i. jsadd sum (jsmul (Num a) (at_index vecB i))) i xs (Num s)
     = Num (s + pair_sum xs (drop i vecB))"
proof (induction xs arbitrary: i s)
  case Nil
  then show ?case by (simp add: pair_sum_def)
next
  case (Cons a as)
  then have i: "i < length vecB" by simp
  then have d: "drop i vecB = vecB ! i # drop (Suc i) vecB"
    by (simp add: Cons_nth_drop_Suc)
  from Cons.prems have "Suc i + length as \<le> length vecB" by simp
  from Cons.IH [OF this] i show ?case
    by (simp add: at_index_def d pair_sum_def algebra_simps)
qed

lemma dot_reduce_from_outside:
  "i \<le> length vecB \<Longrightarrow> length vecB < i + length xs \<Longrightarrow>
   reduce_from (\<lambda>sum a i. jsadd sum (jsmul (Num a) (at_index vecB i))) i xs acc = NaN"
proof (induction xs arbitrary: i acc)
  case Nil
  then show ?case by simp
next
  case (Cons a as)
  show ?case
  proof (cases "i < length vecB")
    case True
    with Cons.prems have "Suc i \<le> length vecB" "length vecB < Suc i + length as" by simp_all
    from Cons.IH [OF this] show ?thesis by simp
  next
    case False
    then have "at_index vecB i = NaN" by (simp add: at_index_def)
    then have "jsadd acc (jsmul (Num a) (at_index vecB i)) = NaN"
      by (cases acc) auto
    then show ?thesis by (simp add: dot_reduce_from_NaN)
  qed
qed

lemma dotProduct_inside:
  "length vecA \<le> length vecB \<Longrightarrow> dotProduct vecA vecB = Num (pair_sum vecA vecB)"
  using dot_reduce_from_inside [of 0 vecA vecB 0] by (simp add: dotProduct_def reduce_def)

lemma dotProduct_outside:
  "length vecB < length vecA \<Longrightarrow> dotProduct vecA vecB = NaN"
  using dot_reduce_from_outside [where i = 0 and vecB = vecB and xs = vecA and acc = "Num 0"]
  by (simp add: dotProduct_def reduce_def)

lemma cosine_longer_query:
  "length vecB < length vecA \<Longrightarrow> cosineSimilarity vecA vecB = NaN"
  by (simp add: cosineSimilarity_def Let_def dotProduct_outside)

lemma cosine_inside:
  "length vecA \<le> length vecB \<Longrightarrow>
   cosineSimilarity vecA vecB =
     (if sqrt (\<Sum>a\<leftarrow>vecA. a * a) * sqrt (\<Sum>b\<leftarrow>vecB. b * b) = 0 then NaN
      else Num (pair_sum vecA vecB / (sqrt (\<Sum>a\<leftarrow>vecA. a * a) * sqrt (\<Sum>b\<leftarrow>vecB. b * b))))"
  by (simp add: cosineSimilarity_def Let_def dotProduct_inside magnitude_eq)

lemma pair_sum_zeros: "pair_sum (replicate n 0) ys = 0"
  by (induction n arbitrary: ys) (auto simp: pair_sum_def zip_Cons1 split: list.splits)

lemma pair_sum_pad: "pair_sum (xs @ replicate n 0) ys = pair_sum xs ys"
proof (induction xs arbitrary: ys)
  case Nil
  show ?case using pair_sum_zeros [of n ys] by (simp add: pair_sum_def)
next
  case (Cons x xs)
  show ?case
  proof (cases ys)
    case Nil
    then show ?thesis by (simp add: pair_sum_def)
  next
    case (Cons y ys')
    with Cons.IH [of ys'] show ?thesis by (simp add: pair_sum_def)
  qed
qed

lemma sumsq_pad: "(\<Sum>a\<leftarrow>xs @ replicate n (0::real). a * a) = (\<Sum>a\<leftarrow>xs. a * a)"
  by (induction n) (auto simp: replicate_app_Cons_same)

lemma cosine_shorter_query_padded:
  assumes "length vecA < length vecB"
  shows "cosineSimilarity vecA vecB
           = cosineSimilarity (vecA @ replicate (length vecB - length vecA) 0) vecB"
proof -
  have l: "length (vecA @ replicate (length vecB - length vecA) 0) \<le> length vecB"
    using assms by simp
  have "length vecA \<le> length vecB" using assms by simp
  then show ?thesis
    by (simp only: cosine_inside [OF l] cosine_inside pair_sum_pad sumsq_pad)
qed

lemma sumsq_zero_iff: "(\<Sum>a\<leftarrow>xs. a * (a::real)) = 0 \<longleftrightarrow> (\<forall>a\<in>set xs. a = 0)"
  by (induction xs) (auto simp: add_nonneg_eq_0_iff sumsq_nonneg)

lemma pair_sum_left_zero: "\<forall>a\<in>set xs. a = 0 \<Longrightarrow> pair_sum xs ys = 0"
  by (induction xs arbitrary: ys) (auto simp: pair_sum_def zip_Cons1 split: list.splits)

lemma pair_sum_right_zero: "\<forall>b\<in>set ys. b = 0 \<Longrightarrow> pair_sum xs ys = 0"
  by (induction xs arbitrary: ys) (auto simp: pair_sum_def zip_Cons1 split: list.splits)

text \<open>
  The division of \<open>cosineSimilarity\<close> has a zero divisor only when one of the vectors is
  all zeros, and then the dividend is zero or \<open>NaN\<close>: the quotient is \<open>NaN\<close> in the source
  too, never an infinity.
\<close>

lemma zero_divisor_zero_dividend:
  assumes "jsmul (magnitude vecA) (magnitude vecB) = Num 0"
  shows "dotProduct vecA vecB = Num 0 \<or> dotProduct vecA vecB = NaN"
proof (cases "length vecA \<le> length vecB")
  case True
  from assms have "(\<Sum>a\<leftarrow>vecA. a * a) = 0 \<or> (\<Sum>b\<leftarrow>vecB. b * b) = 0"
    by (simp add: magnitude_eq)
  then have "pair_sum vecA vecB = 0"
    by (auto simp: sumsq_zero_iff intro: pair_sum_left_zero pair_sum_right_zero)
  with True show ?thesis by (simp add: dotProduct_inside)
next
  case False
  then show ?thesis by (simp add: dotProduct_outside)
qed

subsection \<open>With numeric scores the sort is the stable sort by descending score\<close>

lemma insert_stable_insort_key:
  assumes "s x \<noteq> NaN" "\<forall>y\<in>set ys. s y \<noteq> NaN"
  shows "insert_stable (\<lambda>a b. jssub (snd b) (snd a)) (x, s x) (map (\<lambda>c. (c, s c)) ys)
           = map (\<lambda>c. (c, s c)) (insort_key (\<lambda>c. - num_of (s c)) x ys)"
  using assms
proof (induction ys)
  case Nil
  then show ?case by simp
next
  case (Cons y ys)
  from Cons.prems obtain a b where ab: "s x = Num a" "s y = Num b"
    by (cases "s x"; cases "s y") auto
  with Cons show ?case by auto
qed

lemma array_sort_sort_key:
  assumes "\<forall>y\<in>set xs. s y \<noteq> NaN"
  shows "array_sort (\<lambda>a b. jssub (snd b) (snd a)) (map (\<lambda>c. (c, s c)) xs)
           = map (\<lambda>c. (c, s c)) (sort_key (\<lambda>c. - num_of (s c)) xs)"
  using assms
proof (induction xs)
  case Nil
  then show ?case by simp
next
  case (Cons x xs)
  then have "array_sort (\<lambda>a b. jssub (snd b) (snd a)) (map (\<lambda>c. (c, s c)) xs)
           = map (\<lambda>c. (c, s c)) (sort_key (\<lambda>c. - num_of (s c)) xs)" by simp
  moreover have "\<forall>y\<in>set (sort_key (\<lambda>c. - num_of (s c)) xs). s y \<noteq> NaN"
    using Cons.prems by simp
  moreover have "s x \<noteq> NaN" using Cons.prems by simp
  ultimately show ?case
    by (simp add: insert_stable_insort_key sort_key_def)
qed

lemma findBestMatches_numeric:
  assumes "\<forall>c\<in>set chunks. chunk_score q c \<noteq> NaN"
  shows "findBestMatches q chunks topK
           = take topK (sort_key (\<lambda>c. - num_of (chunk_score q c)) chunks)"
  unfolding findBestMatches_def Let_def array_sort_sort_key [of chunks "chunk_score q", OF assms]
  by (simp add: take_map comp_def)

lemma findBestMatches_ordered:
  assumes numeric: "\<forall>c\<in>set chunks. chunk_score q c \<noteq> NaN"
  shows "sorted_wrt (\<lambda>c d. js_ge (chunk_score q c) (chunk_score q d)) (findBestMatches q chunks topK)"
proof -
  let ?f = "\<lambda>c. - num_of (chunk_score q c)"
  let ?s = "sort_key ?f chunks"
  have "sorted (map ?f ?s)" by (rule sorted_sort_key)
  then have "sorted_wrt (\<lambda>c d. ?f c \<le> ?f d) ?s" by (simp add: sorted_map)
  then have "sorted_wrt (\<lambda>c d. ?f c \<le> ?f d) (take topK ?s)" by (rule sorted_wrt_take)
  moreover have "\<And>c d. c \<in> set (take topK ?s) \<Longrightarrow> d \<in> set (take topK ?s) \<Longrightarrow> ?f c \<le> ?f d
      \<Longrightarrow> js_ge (chunk_score q c) (chunk_score q d)"
  proof -
    fix c d assume "c \<in> set (take topK ?s)" "d \<in> set (take topK ?s)" and le: "?f c \<le> ?f d"
    then have "c \<in> set chunks" "d \<in> set chunks" by (auto dest: in_set_takeD)
    with numeric obtain a b where "chunk_score q c = Num a" "chunk_score q d = Num b"
      by (metis jsnum.exhaust)
    with le show "js_ge (chunk_score q c) (chunk_score q d)" by simp
  qed
  ultimately have "sorted_wrt (\<lambda>c d. js_ge (chunk_score q c) (chunk_score q d)) (take topK ?s)"
    by (rule sorted_wrt_mono_rel [rotated])
  then show ?thesis by (simp add: findBestMatches_numeric [OF numeric])
qed

lemma sorted_filter_below_is_prefix:
  fixes f :: "'a \<Rightarrow> real"
  assumes "sorted (map f xs)"
  shows "filter (\<lambda>x. f x < t) xs = takeWhile (\<lambda>x. f x < t) xs"
  using assms
proof (induction xs)
  case Nil
  show ?case by simp
next
  case (Cons x xs)
  show ?case
  proof (cases "f x < t")
    case True
    with Cons show ?thesis by simp
  next
    case False
    with Cons.prems have "\<forall>y\<in>set xs. \<not> f y < t" by auto
    then have "filter (\<lambda>x. f x < t) xs = []" by (simp add: filter_empty_conv)
    with False show ?thesis by simp
  qed
qed

lemma strict_scores_exclude_unembedded:
  assumes numeric: "\<forall>c\<in>set chunks. chunk_score q c \<noteq> NaN"
    and enough: "topK \<le> length (filter (\<lambda>c. - 1 < num_of (chunk_score q c)) chunks)"
  shows "\<forall>c\<in>set (findBestMatches q chunks topK). has_embedding c"
proof -
  let ?f = "\<lambda>c. - num_of (chunk_score q c)"
  let ?P = "\<lambda>c. ?f c < 1"
  let ?s = "sort_key ?f chunks"
  have "sorted (map ?f ?s)" by (rule sorted_sort_key)
  then have prefix: "filter ?P ?s = takeWhile ?P ?s" by (rule sorted_filter_below_is_prefix)
  have "mset (filter ?P ?s) = mset (filter ?P chunks)" by simp
  then have "length (filter ?P ?s) = length (filter ?P chunks)" by (rule mset_eq_length)
  moreover have "filter ?P chunks = filter (\<lambda>c. - 1 < num_of (chunk_score q c)) chunks"
    by (rule filter_cong) auto
  ultimately have "topK \<le> length (takeWhile ?P ?s)" using enough prefix by simp
  then have "take topK ?s = take topK (takeWhile ?P ?s)"
    by (metis append_take_drop_id takeWhile_dropWhile_id take_append diff_is_0_eq' take_0 append_Nil2)
  then have "\<forall>c\<in>set (take topK ?s). ?P c"
    by (metis in_set_takeD set_takeWhileD)
  moreover have "\<And>c. ?P c \<Longrightarrow> has_embedding c"
    by (auto simp: has_embedding_def chunk_score_def split: option.splits)
  ultimately show ?thesis by (simp add: findBestMatches_numeric [OF numeric])
qed


section \<open>Claims about the matcher\<close>

text \<open>
  C1 (the code departs from the claim). The claim's second half: when the corpus holds at
  least \<open>topK\<close> chunks with a valid embedding, no chunk without an embedding is returned.
  The sentinel score of a chunk without an embedding is \<open>-1\<close>, and \<open>-1\<close> is also the cosine
  of a valid embedding that points away from the query. The stable sort then keeps the
  corpus order: with the query \<open>[1]\<close>, a first chunk without an embedding and a second
  chunk with the valid embedding \<open>[-1]\<close>, \<open>topK = 1\<close> returns the chunk without an embedding.
  (The rest of the claim holds whenever all scores are numbers: the result has
  \<open>min topK (length chunks)\<close> chunks, is the stable sort by descending score cut to \<open>topK\<close>,
  and holds no chunk without an embedding once \<open>topK\<close> chunks score strictly above \<open>-1\<close>:
  lemmas \<open>length_findBestMatches\<close>, \<open>findBestMatches_numeric\<close>, \<open>findBestMatches_ordered\<close> and
  \<open>strict_scores_exclude_unembedded\<close>.)
\<close>

theorem findBestMatches_sentinel_tie:
  "findBestMatches [1]
     [\<lparr>c_id = ''m'', c_docId = ''d'', c_docTitle = ''t'', c_text = ''no vector'',
        c_embedding = None\<rparr>,
      \<lparr>c_id = ''v'', c_docId = ''d'', c_docTitle = ''t'', c_text = ''opposite'',
        c_embedding = Some [- 1]\<rparr>] 1
   = [\<lparr>c_id = ''m'', c_docId = ''d'', c_docTitle = ''t'', c_text = ''no vector'',
        c_embedding = None\<rparr>]"
  by (simp add: findBestMatches_def chunk_score_def cosine_inside pair_sum_def)

text \<open>
  The same defect on the other path by which a chunk has no usable vector: ingestion
  stores a failed embedding as the empty array, the truth test of \<open>findBestMatches\<close> takes
  it for present, its score is \<open>NaN\<close>, and the comparator never moves it.
\<close>

theorem findBestMatches_empty_embedding_ranked:
  "findBestMatches [1]
     [\<lparr>c_id = ''e'', c_docId = ''d'', c_docTitle = ''t'', c_text = ''failed vector'',
        c_embedding = Some []\<rparr>,
      \<lparr>c_id = ''v'', c_docId = ''d'', c_docTitle = ''t'', c_text = ''same'',
        c_embedding = Some [1]\<rparr>] 1
   = [\<lparr>c_id = ''e'', c_docId = ''d'', c_docTitle = ''t'', c_text = ''failed vector'',
        c_embedding = Some []\<rparr>]"
  by (simp add: findBestMatches_def chunk_score_def cosine_inside cosine_longer_query pair_sum_def)



text \<open>
  C4 (as stated, refuted). The claim: a query vector and a chunk embedding of differing
  lengths give no score but a mismatch error. \<open>cosineSimilarity\<close> compares no lengths and
  raises nothing: the query \<open>[1]\<close> against the embedding \<open>[1, 0]\<close> scores \<open>1\<close>, the score
  of the zero-padded query \<open>[1, 0]\<close>.
\<close>

theorem cosine_length_mismatch_counterexample:
  "length [1::real] \<noteq> length [1, 0::real]
   \<and> cosineSimilarity [1] [1, 0] = Num 1
   \<and> cosineSimilarity [1, 0] [1, 0] = Num 1"
  by (simp add: cosine_inside pair_sum_def)

text \<open>
  C4 (amended). \<open>cosineSimilarity\<close> does not check lengths. A query shorter than the chunk
  embedding is scored as the query padded with zeros to the embedding's length; a query
  longer than the chunk embedding scores \<open>NaN\<close>.
\<close>

theorem cosineSimilarity_unchecked_lengths:
  "(length vecA < length vecB \<longrightarrow>
      cosineSimilarity vecA vecB
        = cosineSimilarity (vecA @ replicate (length vecB - length vecA) 0) vecB)
   \<and> (length vecB < length vecA \<longrightarrow> cosineSimilarity vecA vecB = NaN)"
  by (simp add: cosine_shorter_query_padded cosine_longer_query)

theorem cosineSimilarity_unchecked_lengths_witness:
  "length [1::real] < length [1, 0::real]
   \<and> cosineSimilarity [1] [1, 0] = cosineSimilarity [1, 0] [1, 0]
   \<and> cosineSimilarity [1, 0] [1] = NaN"
  using cosineSimilarity_unchecked_lengths [of "[1]" "[1, 0]"]
        cosineSimilarity_unchecked_lengths [of "[1, 0]" "[1]"]
  by (simp add: numeral_2_eq_2)

section \<open>Properties of the chunker\<close>

lemma chunkText_nonempty_chunks: "\<forall>c\<in>set (chunkText t n). c \<noteq> []"
  by (auto simp: chunkText_def Let_def split: prod.splits)

text \<open>
  A text made of sentences is the concatenation of its matches, the loop moves every
  character of the matches into the chunks, and trimming removes white space only: on
  such a text, and on a text with no match at all, the chunks hold the content of the text.
\<close>

lemma match_sentences_sentence:
  assumes "\<not> is_terminator c" "dropWhile (\<lambda>x. \<not> is_terminator x) (c # cs) \<noteq> []"
  shows "match_sentences (c # cs) =
           (takeWhile (\<lambda>x. \<not> is_terminator x) (c # cs)
              @ takeWhile is_terminator (dropWhile (\<lambda>x. \<not> is_terminator x) (c # cs)))
           # match_sentences (dropWhile is_terminator (dropWhile (\<lambda>x. \<not> is_terminator x) (c # cs)))"
  using assms by (simp add: match_sentences.simps Let_def)

lemma concat_match_sentences:
  "made_of_sentences s \<Longrightarrow> concat (match_sentences s) = s"
proof (induction "length s" arbitrary: s rule: less_induct)
  case less
  from less.prems have ne: "s \<noteq> []" and c: "\<not> is_terminator (hd s)"
    and l: "is_terminator (last s)"
    by (simp_all add: made_of_sentences_def)
  from ne obtain c0 cs where s: "s = c0 # cs" by (cases s) auto
  let ?run = "takeWhile (\<lambda>x. \<not> is_terminator x) s"
  let ?rest = "dropWhile (\<lambda>x. \<not> is_terminator x) s"
  let ?terms = "takeWhile is_terminator ?rest"
  let ?tail = "dropWhile is_terminator ?rest"
  have "last s \<in> set s" using ne by (rule last_in_set)
  with l have rest: "?rest \<noteq> []" by (auto simp: dropWhile_eq_Nil_conv)
  have m: "match_sentences s = (?run @ ?terms) # match_sentences ?tail"
    unfolding s using c rest unfolding s by (intro match_sentences_sentence) simp_all
  have whole: "?run @ ?terms @ ?tail = s"
    by (simp only: takeWhile_dropWhile_id)
  show ?case
  proof (cases "?tail = []")
    case True
    have "concat (match_sentences s) = ?run @ ?terms @ ?tail"
      unfolding m True by (simp add: match_sentences.simps(1))
    then show ?thesis by (simp only: whole)
  next
    case False
    then have h: "\<not> is_terminator (hd ?tail)" by (rule hd_dropWhile)
    have "last ?rest = last ?tail"
      using False by (metis last_appendR takeWhile_dropWhile_id)
    moreover have "last s = last ?rest"
      using rest by (metis last_appendR takeWhile_dropWhile_id)
    ultimately have "last ?tail = last s" by simp
    with l False h have sent: "made_of_sentences ?tail" by (simp add: made_of_sentences_def)
    have "length ?tail \<le> length ?rest" by (rule length_dropWhile_le)
    moreover have "length ?rest \<le> length cs"
      using c s length_dropWhile_le [of "\<lambda>x. \<not> is_terminator x" cs] by simp
    ultimately have "length ?tail < length s" using s by simp
    from less.hyps [OF this sent] have "concat (match_sentences ?tail) = ?tail" .
    then have "concat (match_sentences s) = ?run @ ?terms @ ?tail"
      unfolding m by simp
    then show ?thesis by (simp only: whole)
  qed
qed

lemma filter_dropWhile_space:
  "filter (\<lambda>c. \<not> is_space c) (dropWhile is_space xs) = filter (\<lambda>c. \<not> is_space c) xs"
  by (induction xs) auto

lemma content_trim: "content_of (trim s) = content_of s"
proof -
  have "content_of (trim s)
      = rev (filter (\<lambda>c. \<not> is_space c) (dropWhile is_space (rev (dropWhile is_space s))))"
    unfolding content_of_def trim_def by (rule rev_filter [symmetric])
  also have "\<dots> = rev (filter (\<lambda>c. \<not> is_space c) (rev (dropWhile is_space s)))"
    by (simp only: filter_dropWhile_space)
  also have "\<dots> = filter (\<lambda>c. \<not> is_space c) (dropWhile is_space s)"
    by (simp only: rev_filter [symmetric] rev_rev_ident)
  also have "\<dots> = content_of s"
    by (simp only: filter_dropWhile_space content_of_def)
  finally show ?thesis .
qed

lemma content_append: "content_of (a @ b) = content_of a @ content_of b"
  by (simp add: content_of_def)

lemma content_concat_snoc: "content_of (concat (cs @ [c])) = content_of (concat cs) @ content_of c"
  by (simp add: content_of_def)

lemma chunk_loop_content:
  "chunk_loop n ss cur chunks = (chunks', cur') \<Longrightarrow>
   content_of (concat chunks') @ content_of cur'
     = content_of (concat chunks) @ content_of cur @ content_of (concat ss)"
proof (induction ss arbitrary: cur chunks)
  case Nil
  then show ?case by (simp add: content_of_def)
next
  case (Cons s ss)
  show ?case
  proof (cases "n < int (length (cur @ s))")
    case True
    with Cons.prems have "chunk_loop n ss s (chunks @ [trim cur]) = (chunks', cur')" by simp
    from Cons.IH [OF this] show ?thesis
      by (simp add: content_concat_snoc content_trim content_append)
  next
    case False
    with Cons.prems have "chunk_loop n ss (cur @ s) chunks = (chunks', cur')" by simp
    from Cons.IH [OF this] show ?thesis by (simp add: content_append)
  qed
qed

lemma concat_filter_nonempty: "concat (filter (\<lambda>c. 0 < length c) xs) = concat xs"
  by (induction xs) auto

lemma chunkText_content_of_sentences:
  "content_of (concat (chunkText t n))
     = content_of (concat (case match_sentences t of [] \<Rightarrow> [t] | ms \<Rightarrow> ms))"
proof -
  let ?ss = "case match_sentences t of [] \<Rightarrow> [t] | ms \<Rightarrow> ms"
  obtain chunks' cur' where loop: "chunk_loop n ?ss [] [] = (chunks', cur')"
    by (cases "chunk_loop n ?ss [] []") auto
  from chunk_loop_content [OF loop]
  have c: "content_of (concat chunks') @ content_of cur' = content_of (concat ?ss)"
    by (simp add: content_of_def)
  have flushed: "content_of (concat (if trim cur' \<noteq> [] then chunks' @ [trim cur'] else chunks'))
      = content_of (concat chunks') @ content_of cur'"
  proof (cases "trim cur' = []")
    case True
    then have "content_of (trim cur') = []" by (simp add: content_of_def)
    then have "content_of cur' = []" by (simp add: content_trim)
    with True show ?thesis by simp
  next
    case False
    then show ?thesis by (simp add: content_append content_trim)
  qed
  have "chunkText t n = filter (\<lambda>c. 0 < length c)
          (if trim cur' \<noteq> [] then chunks' @ [trim cur'] else chunks')"
    using loop by (simp add: chunkText_def Let_def)
  then show ?thesis
    by (simp only: concat_filter_nonempty flushed c)
qed

lemma chunkText_keeps_sentences:
  assumes "made_of_sentences t \<or> match_sentences t = []"
  shows "content_of (concat (chunkText t n)) = content_of t"
proof -
  have "concat (case match_sentences t of [] \<Rightarrow> [t] | ms \<Rightarrow> ms) = t"
  proof (cases "match_sentences t")
    case Nil
    then show ?thesis by simp
  next
    case (Cons m ms)
    with assms have "made_of_sentences t" by simp
    then have "concat (match_sentences t) = t" by (rule concat_match_sentences)
    with Cons show ?thesis by simp
  qed
  then show ?thesis by (simp only: chunkText_content_of_sentences)
qed

lemma chunkText_keeps_sentences_example:
  "made_of_sentences ''Hi. Yo.'' \<and> content_of (concat (chunkText ''Hi. Yo.'' 5)) = ''Hi.Yo.''"
  using chunkText_keeps_sentences [of "''Hi. Yo.''" 5]
  by (simp add: made_of_sentences_def is_terminator_def content_of_def is_space_def)

text \<open>
  C2 (the code departs from the claim). The claim: the chunks of a text, concatenated,
  give the text back up to the white space trimmed at chunk boundaries. The regular
  expression of \<open>chunkText\<close> matches only runs that end in \<open>.\<close>, \<open>!\<close> or \<open>?\<close>; what follows the
  last terminator belongs to no match and is dropped. The text \<open>Hi. Yo\<close> gives the one
  chunk \<open>Hi.\<close>: the word \<open>Yo\<close> is lost. (A text with no terminator at all is kept whole by
  the fall-back \<open>|| [text]\<close>, and a text made of sentences keeps its content, lemma
  \<open>chunkText_keeps_sentences\<close>; no returned chunk is empty, lemma \<open>chunkText_nonempty_chunks\<close>.)
\<close>

theorem chunkText_drops_unterminated_tail:
  "chunkText ''Hi. Yo'' 500 = [''Hi.'']"
  by (simp add: chunkText_def match_sentences.simps is_terminator_def trim_def is_space_def)

section \<open>Properties of the embedding client\<close>

lemma trim_Nil [simp]: "trim [] = []"
  by (simp add: trim_def)

lemma getEmbeddings_loop_step:
  "getEmbeddings_loop svc (t # texts) embs calls
     = getEmbeddings_loop svc texts (embs @ [item_vector svc calls t]) (calls @ item_calls t)"
  by (auto simp: item_vector_def item_calls_def is_blank_def vector_of_def
           split: embed_outcome.splits)

lemma getEmbeddings_loop_length:
  "length (fst (getEmbeddings_loop svc texts embs calls)) = length embs + length texts"
proof (induction texts arbitrary: embs calls)
  case Nil
  show ?case by simp
next
  case (Cons t texts)
  show ?case by (simp only: getEmbeddings_loop_step Cons.IH) simp
qed

lemma getEmbeddings_loop_calls:
  "snd (getEmbeddings_loop svc texts embs calls) = calls @ filter (\<lambda>t. \<not> is_blank t) texts"
proof (induction texts arbitrary: embs calls)
  case Nil
  show ?case by simp
next
  case (Cons t texts)
  show ?case by (simp only: getEmbeddings_loop_step Cons.IH) (simp add: item_calls_def)
qed

lemma getEmbeddings_loop_prefix:
  "take (length embs) (fst (getEmbeddings_loop svc texts embs calls)) = embs"
proof (induction texts arbitrary: embs calls)
  case Nil
  show ?case by simp
next
  case (Cons t texts)
  have "take (length (embs @ [item_vector svc calls t]))
          (fst (getEmbeddings_loop svc (t # texts) embs calls)) = embs @ [item_vector svc calls t]"
    by (simp only: getEmbeddings_loop_step Cons.IH)
  then have "take (length embs) (take (length (embs @ [item_vector svc calls t]))
          (fst (getEmbeddings_loop svc (t # texts) embs calls))) = take (length embs) (embs @ [item_vector svc calls t])"
    by (rule arg_cong)
  then show ?case by (simp add: min_def)
qed

lemma getEmbeddings_loop_nth:
  "i < length texts \<Longrightarrow>
   fst (getEmbeddings_loop svc texts embs calls) ! (length embs + i) =
     item_vector svc (calls @ filter (\<lambda>t. \<not> is_blank t) (take i texts)) (texts ! i)"
proof (induction texts arbitrary: embs calls i)
  case Nil
  then show ?case by simp
next
  case (Cons t texts)
  let ?embs = "embs @ [item_vector svc calls t]"
  let ?calls = "calls @ item_calls t"
  show ?case
  proof (cases i)
    case 0
    have "take (length ?embs) (fst (getEmbeddings_loop svc texts ?embs ?calls)) ! length embs
            = ?embs ! length embs"
      by (simp only: getEmbeddings_loop_prefix)
    then show ?thesis using 0
      by (simp add: getEmbeddings_loop_step del: getEmbeddings_loop.simps)
  next
    case (Suc j)
    with Cons.prems have j: "j < length texts" by simp
    from Cons.IH [OF j, of ?embs ?calls] Suc show ?thesis
      by (simp add: getEmbeddings_loop_step item_calls_def del: getEmbeddings_loop.simps)
  qed
qed

text \<open>
  C9. \<open>getEmbeddings\<close> returns one vector per input text, at the same position. The vector
  of a blank text (empty or white space only) is empty, and only the texts that are not
  blank go to the remote service, in order. The vector of any other text is the one the
  service gave for it, or empty when the call gave none or threw; either way the later
  texts are processed.
\<close>

theorem getEmbeddings_contract:
  "length (fst (getEmbeddings svc texts)) = length texts
   \<and> snd (getEmbeddings svc texts) = filter (\<lambda>t. \<not> is_blank t) texts
   \<and> (\<forall>i<length texts.
        fst (getEmbeddings svc texts) ! i =
          (if is_blank (texts ! i) then []
           else vector_of (svc (filter (\<lambda>t. \<not> is_blank t) (take i texts)) (texts ! i))))"
  using getEmbeddings_loop_nth [of _ texts svc "[]" "[]"]
  by (simp add: getEmbeddings_def getEmbeddings_loop_length getEmbeddings_loop_calls
                item_vector_def)

theorem getEmbeddings_contract_witness:
  "fst (getEmbeddings (\<lambda>calls t. if t = ''a'' then Throws else Values [1]) [''a'', ''  '', ''b'']) ! 0 = []
   \<and> fst (getEmbeddings (\<lambda>calls t. if t = ''a'' then Throws else Values [1]) [''a'', ''  '', ''b'']) ! 1 = []
   \<and> fst (getEmbeddings (\<lambda>calls t. if t = ''a'' then Throws else Values [1]) [''a'', ''  '', ''b'']) ! 2 = [1]
   \<and> length (fst (getEmbeddings (\<lambda>calls t. if t = ''a'' then Throws else Values [1]) [''a'', ''  '', ''b''])) = 3
   \<and> snd (getEmbeddings (\<lambda>calls t. if t = ''a'' then Throws else Values [1]) [''a'', ''  '', ''b'']) = [''a'', ''b'']"
proof -
  let ?svc = "\<lambda>(calls::string list) t. if t = ''a'' then Throws else Values [1::real]"
  let ?texts = "[''a'', ''  '', ''b'']"
  note c = getEmbeddings_contract [of ?svc ?texts]
  have b: "\<not> is_blank ''a''" "is_blank ''  ''" "\<not> is_blank ''b''"
    by (simp_all add: is_blank_def trim_def is_space_def)
  from c have n: "\<forall>i<3. fst (getEmbeddings ?svc ?texts) ! i =
          (if is_blank (?texts ! i) then []
           else vector_of (?svc (filter (\<lambda>t. \<not> is_blank t) (take i ?texts)) (?texts ! i)))"
    by simp
  have "fst (getEmbeddings ?svc ?texts) ! 0 = []" using n b by (simp add: vector_of_def)
  moreover have "fst (getEmbeddings ?svc ?texts) ! 1 = []" using n b by simp
  moreover have "fst (getEmbeddings ?svc ?texts) ! 2 = [1]"
    using n [rule_format, of 2] b by (simp add: vector_of_def)
  moreover have "length (fst (getEmbeddings ?svc ?texts)) = 3" using c by simp
  moreover have "snd (getEmbeddings ?svc ?texts) = [''a'', ''b'']" using c b by simp
  ultimately show ?thesis by simp
qed

section \<open>Properties of the conversation handlers\<close>

lemma getEmbeddings_single:
  "getEmbeddings svc [q] = ([item_vector svc [] q], item_calls q)"
  by (simp add: getEmbeddings_def getEmbeddings_loop_step del: getEmbeddings_loop.simps(2))

lemma dropWhile_all_iff: "(\<forall>x\<in>set (dropWhile P xs). P x) \<longleftrightarrow> (\<forall>x\<in>set xs. P x)"
proof
  assume a: "\<forall>x\<in>set (dropWhile P xs). P x"
  have "dropWhile P xs = []"
  proof (rule ccontr)
    assume "dropWhile P xs \<noteq> []"
    then have "\<not> P (hd (dropWhile P xs))" by (rule hd_dropWhile)
    moreover have "hd (dropWhile P xs) \<in> set (dropWhile P xs)"
      using \<open>dropWhile P xs \<noteq> []\<close> by simp
    ultimately show False using a by blast
  qed
  then show "\<forall>x\<in>set xs. P x" by (simp add: dropWhile_eq_Nil_conv)
next
  assume "\<forall>x\<in>set xs. P x"
  then show "\<forall>x\<in>set (dropWhile P xs). P x" by (meson set_dropWhileD)
qed

lemma trim_empty_iff: "trim s = [] \<longleftrightarrow> (\<forall>c\<in>set s. is_space c)"
proof -
  have "trim s = [] \<longleftrightarrow> (\<forall>x\<in>set (dropWhile is_space s). is_space x)"
    by (simp add: trim_def dropWhile_eq_Nil_conv)
  then show ?thesis by (simp only: dropWhile_all_iff)
qed

lemma digit_not_space: "is_digit c \<Longrightarrow> \<not> is_space c"
  by (auto simp: is_digit_def is_space_def)

lemma digits_not_blank: "0 < digit_count s \<Longrightarrow> trim s \<noteq> []"
proof -
  assume "0 < digit_count s"
  then have "filter is_digit s \<noteq> []" by (simp add: digit_count_def)
  then obtain c where "c \<in> set s" "is_digit c"
    by (metis filter_False)
  then show ?thesis using digit_not_space by (auto simp: trim_empty_iff)
qed

lemma handleSend_blank: "trim (input w) = [] \<Longrightarrow> handleSend env now w = w"
  by (simp add: handleSend_def)

lemma handleSend_invalid_contact:
  assumes "waitingForNumber w" "trim (input w) \<noteq> []"
    and "digit_count (input w) < 10 \<or> 15 < digit_count (input w)"
  shows "handleSend env now w =
           w\<lparr>input := [],
             messages := messages w @
               [plain_message (toString now) Model
                  ''Please enter a valid phone number (e.g., +91 95265 69313).'' now]\<rparr>"
  using assms by (simp add: handleSend_def Let_def digit_count_def)

lemma valid_contact_not_blank:
  "10 \<le> digit_count s \<Longrightarrow> trim s \<noteq> []"
  by (rule digits_not_blank) simp

lemma handleSend_valid_waiting:
  assumes "waitingForNumber w" "10 \<le> digit_count (input w)" "digit_count (input w) \<le> 15"
  shows "\<not> waitingForNumber (handleSend env now w)"
  using assms valid_contact_not_blank [of "input w"]
  by (simp add: handleSend_def Let_def digit_count_def getEmbeddings_single split: option.splits)

lemma handleSend_valid_leads:
  assumes "waitingForNumber w" "10 \<le> digit_count (input w)" "digit_count (input w) \<le> 15"
  shows "db_leads (handleSend env now w) = db_leads w @
           [\<lparr>l_id = toString now, l_phoneNumber = input w,
             l_queryContext = take 100 (lastContext (messages w)) @ ''...'',
             l_timestamp = now\<rparr>]"
  using assms valid_contact_not_blank [of "input w"]
  by (simp add: handleSend_def Let_def digit_count_def getEmbeddings_single split: option.splits)

lemma handleSend_valid_messages:
  assumes "waitingForNumber w" "10 \<le> digit_count (input w)" "digit_count (input w) \<le> 15"
  shows "\<exists>reply. m_role reply = Model \<and>
           messages (handleSend env now w)
             = messages w @ [plain_message (toString now) User (input w) now, reply]"
  using assms valid_contact_not_blank [of "input w"]
  by (simp add: handleSend_def Let_def digit_count_def getEmbeddings_single plain_message_def
           split: option.splits)

lemma handleSend_valid_rag_calls:
  assumes "waitingForNumber w" "10 \<le> digit_count (input w)" "digit_count (input w) \<le> 15"
  shows "rag_calls (handleSend env now w) = rag_calls w @
           [(detailedPrompt (topicQuery (messages w) (input w)),
             retrieve env (db_chunks w) (topicQuery (messages w) (input w)) 8)]"
  using assms valid_contact_not_blank [of "input w"]
  by (simp add: handleSend_def Let_def digit_count_def getEmbeddings_single retrieve_def
                query_embedding_def split: option.splits)

lemma handleSend_valid_matcher_calls:
  assumes "waitingForNumber w" "10 \<le> digit_count (input w)" "digit_count (input w) \<le> 15"
  shows "matcher_calls (handleSend env now w) = matcher_calls w @
           (if query_embedding env (topicQuery (messages w) (input w)) = [] then []
            else [(query_embedding env (topicQuery (messages w) (input w)), 8)])"
  using assms valid_contact_not_blank [of "input w"]
  by (simp add: handleSend_def Let_def digit_count_def getEmbeddings_single
                query_embedding_def split: option.splits)

lemma handleSend_valid_embed_calls:
  assumes "waitingForNumber w" "10 \<le> digit_count (input w)" "digit_count (input w) \<le> 15"
  shows "embed_calls (handleSend env now w) = embed_calls w @
           item_calls (topicQuery (messages w) (input w))"
  using assms valid_contact_not_blank [of "input w"]
  by (simp add: handleSend_def Let_def digit_count_def getEmbeddings_single split: option.splits)

lemma processQuery_rag_calls:
  "rag_calls (processQuery env now q v w) = rag_calls w @ [(q, retrieve env (db_chunks w) q 5)]"
  by (simp add: processQuery_def Let_def getEmbeddings_single retrieve_def
                query_embedding_def split: option.splits)

lemma processQuery_matcher_calls:
  "matcher_calls (processQuery env now q v w) = matcher_calls w @
     (if query_embedding env q = [] then [] else [(query_embedding env q, 5)])"
  by (simp add: processQuery_def Let_def getEmbeddings_single query_embedding_def
           split: option.splits)

lemma processQuery_embed_calls:
  "embed_calls (processQuery env now q v w) = embed_calls w @ item_calls q"
  by (simp add: processQuery_def Let_def getEmbeddings_single split: option.splits)

lemma processQuery_waiting:
  "waitingForNumber (processQuery env now q v w) = waitingForNumber w"
  by (simp add: processQuery_def Let_def getEmbeddings_single split: option.splits)

lemma processQuery_leads:
  "db_leads (processQuery env now q v w) = db_leads w"
  by (simp add: processQuery_def Let_def getEmbeddings_single split: option.splits)

lemma search_knowledge_base_frame:
  "messages (search_knowledge_base env fc w) = messages w
   \<and> waitingForNumber (search_knowledge_base env fc w) = waitingForNumber w
   \<and> db_leads (search_knowledge_base env fc w) = db_leads w
   \<and> db_chunks (search_knowledge_base env fc w) = db_chunks w"
  by (simp add: search_knowledge_base_def Let_def getEmbeddings_single)

lemma functionCalls_loop_frame:
  "messages (functionCalls_loop env fcs w) = messages w
   \<and> waitingForNumber (functionCalls_loop env fcs w) = waitingForNumber w
   \<and> db_leads (functionCalls_loop env fcs w) = db_leads w
   \<and> db_chunks (functionCalls_loop env fcs w) = db_chunks w"
  by (induction fcs arbitrary: w) (simp_all add: search_knowledge_base_frame)

lemma onmessage_frame:
  "messages (onmessage env message w) = messages w
   \<and> waitingForNumber (onmessage env message w) = waitingForNumber w
   \<and> db_leads (onmessage env message w) = db_leads w"
  by (simp add: onmessage_def Let_def functionCalls_loop_frame split: option.splits)

lemma processQuery_messages_nonempty:
  "messages (processQuery env now q v w) \<noteq> []"
  by (simp add: processQuery_def Let_def getEmbeddings_single split: option.splits)

lemma lastContext_last_model:
  assumes "filter (\<lambda>m. m_role m = Model) msgs \<noteq> []"
    and "m_content (last (filter (\<lambda>m. m_role m = Model) msgs)) \<noteq> []"
  shows "lastContext msgs = m_content (last (filter (\<lambda>m. m_role m = Model) msgs))"
proof (cases "rev (filter (\<lambda>m. m_role m = Model) msgs)")
  case Nil
  with assms(1) show ?thesis by simp
next
  case (Cons m ms)
  have "last (filter (\<lambda>m. m_role m = Model) msgs)
      = hd (rev (filter (\<lambda>m. m_role m = Model) msgs))"
    using assms(1) by (simp add: hd_rev)
  then have "last (filter (\<lambda>m. m_role m = Model) msgs) = m"
    by (simp add: Cons)
  with assms(2) show ?thesis by (simp add: lastContext_def Cons)
qed

lemma find_skip: "\<forall>x\<in>set xs. \<not> P x \<Longrightarrow> find P (xs @ ys) = find P ys"
  by (induction xs) auto

lemma find_none: "\<forall>x\<in>set xs. \<not> P x \<Longrightarrow> find P xs = None"
  by (induction xs) auto

lemma topicQuery_default:
  assumes "\<forall>m\<in>set msgs. m_role m = User \<longrightarrow> m_content m = contact"
  shows "topicQuery msgs contact = ''Samastha Kerala Jamiyyathul Ulama''"
proof -
  have "\<forall>m\<in>set (rev msgs). \<not> (m_role m = User \<and> m_content m \<noteq> contact)"
    using assms by auto
  then have "find (\<lambda>m. m_role m = User \<and> m_content m \<noteq> contact) (rev msgs) = None"
    by (rule find_none)
  then show ?thesis by (simp add: topicQuery_def)
qed

lemma topicQuery_most_recent:
  assumes "msgs = pre @ [m] @ post" "m_role m = User" "m_content m \<noteq> contact"
    and "\<forall>m'\<in>set post. m_role m' = User \<longrightarrow> m_content m' = contact"
  shows "topicQuery msgs contact = m_content m"
proof -
  have "\<forall>x\<in>set (rev post). \<not> (m_role x = User \<and> m_content x \<noteq> contact)"
    using assms(4) by auto
  then have "find (\<lambda>m. m_role m = User \<and> m_content m \<noteq> contact) (rev post @ (m # rev pre))
           = find (\<lambda>m. m_role m = User \<and> m_content m \<noteq> contact) (m # rev pre)"
    by (rule find_skip)
  then show ?thesis using assms(1-3) by (simp add: topicQuery_def)
qed

lemma handleSend_valid_report_message:
  assumes "waitingForNumber w" "10 \<le> digit_count (input w)" "digit_count (input w) \<le> 15"
    and "generateRAGResponse env (detailedPrompt (topicQuery (messages w) (input w)))
           (retrieve env (db_chunks w) (topicQuery (messages w) (input w)) 8) = Some response"
  shows "m_content (last (messages (handleSend env now w)))
           = report_content (topicQuery (messages w) (input w)) (r_text response)"
proof (cases "query_embedding env (topicQuery (messages w) (input w)) = []")
  case True
  with assms valid_contact_not_blank [of "input w"] show ?thesis
    by (simp add: handleSend_def Let_def digit_count_def getEmbeddings_single retrieve_def
                  query_embedding_def plain_message_def)
next
  case False
  with assms valid_contact_not_blank [of "input w"] show ?thesis
    by (simp add: handleSend_def Let_def digit_count_def getEmbeddings_single retrieve_def
                  query_embedding_def plain_message_def)
qed

lemma handleSend_never_passes_empty_vector:
  assumes "\<forall>k. ([], k) \<notin> set (matcher_calls w)"
  shows "\<forall>k. ([], k) \<notin> set (matcher_calls (handleSend env now w))"
proof (cases "trim (input w) = []")
  case True
  with assms show ?thesis by (simp add: handleSend_blank)
next
  case nonblank: False
  show ?thesis
  proof (cases "waitingForNumber w")
    case False
    with nonblank assms show ?thesis
      by (simp add: handleSend_def Let_def processQuery_matcher_calls)
  next
    case True
    show ?thesis
    proof (cases "digit_count (input w) < 10 \<or> 15 < digit_count (input w)")
      case True
      with \<open>waitingForNumber w\<close> nonblank assms show ?thesis
        by (simp add: handleSend_invalid_contact)
    next
      case False
      then have "10 \<le> digit_count (input w)" "digit_count (input w) \<le> 15" by simp_all
      from handleSend_valid_matcher_calls [OF \<open>waitingForNumber w\<close> this] assms
      show ?thesis by simp
    qed
  qed
qed

lemma processQuery_never_passes_empty_vector:
  assumes "\<forall>k. ([], k) \<notin> set (matcher_calls w)"
  shows "\<forall>k. ([], k) \<notin> set (matcher_calls (processQuery env now q v w))"
  using assms by (simp add: processQuery_matcher_calls)

section \<open>Claims about the lead capture\<close>

lemma awaiting_world_facts:
  "waitingForNumber (awaiting_world\<lparr>input := s\<rparr>)"
  "input (awaiting_world\<lparr>input := s\<rparr>) = s"
  "db_leads (awaiting_world\<lparr>input := s\<rparr>) = []"
  "map m_content (messages (awaiting_world\<lparr>input := s\<rparr>)) =
     [''**Assalamu Alaikum.**'' @ newline @ newline @ ''I am Samastha AI, the AI assistant for **Samastha Kerala Jamiyyathul Ulama**. How can I help you today?'',
      ''To generate a **Detailed Report** for you, please verify your **Mobile Number**.'']"
  "map m_role (messages (awaiting_world\<lparr>input := s\<rparr>)) = [Model, Model]"
  by (simp_all add: awaiting_world_def handleKnowMore_def loadAndSync_def initial_world_def
        Let_def plain_message_def trim_def)

lemma answered_while_awaiting_facts:
  "waitingForNumber answered_while_awaiting"
  "input answered_while_awaiting = ''+91 95265 69313''"
  "db_leads answered_while_awaiting = []"
  "filter (\<lambda>m. m_role m = Model) (messages answered_while_awaiting) \<noteq> []"
  "m_content (last (filter (\<lambda>m. m_role m = Model) (messages answered_while_awaiting))) = long_answer"
proof -
  have g: "generateRAGResponse long_answer_env = (\<lambda>prompt cs.
      Some \<lparr>r_text = long_answer, r_language = ''Detected'', r_citations = None\<rparr>)"
    by (simp add: long_answer_env_def)
  show "waitingForNumber answered_while_awaiting"
    by (simp add: answered_while_awaiting_def processQuery_waiting awaiting_world_def
          handleKnowMore_def)
  show "input answered_while_awaiting = ''+91 95265 69313''"
    by (simp add: answered_while_awaiting_def)
  show "db_leads answered_while_awaiting = []"
    using awaiting_world_facts(3) [of "input awaiting_world"]
    by (simp add: answered_while_awaiting_def processQuery_leads)
  have m: "\<exists>u. m_role u = User \<and> messages answered_while_awaiting = messages awaiting_world @
      [u, (plain_message (toString 4) Model long_answer 3)
            \<lparr>m_language := Some ''Detected'', m_citations := Some []\<rparr>]"
    by (simp add: answered_while_awaiting_def processQuery_def Let_def getEmbeddings_single g
          item_vector_def vector_of_def long_answer_env_def plain_message_def)
  then obtain u where u: "m_role u = User"
    and ms: "messages answered_while_awaiting = messages awaiting_world @
      [u, (plain_message (toString 4) Model long_answer 3)
            \<lparr>m_language := Some ''Detected'', m_citations := Some []\<rparr>]"
    by blast
  show "filter (\<lambda>m. m_role m = Model) (messages answered_while_awaiting) \<noteq> []"
    unfolding ms by (simp add: plain_message_def)
  show "m_content (last (filter (\<lambda>m. m_role m = Model) (messages answered_while_awaiting))) = long_answer"
    unfolding ms using u by (simp add: plain_message_def)
qed

text \<open>
  C6. While the component awaits the contact number and the conversation holds a model
  message whose content is not empty, a submission whose digits (all other characters
  stripped) number 10 to 15 ends the waiting, appends the raw input as a user message
  (followed by the model's reply), and stores one lead whose \<open>phoneNumber\<close> is the raw input
  and whose \<open>queryContext\<close> is the content of the most recent model message cut to 100
  characters, with \<open>...\<close> appended.
\<close>

theorem lead_capture_on_valid_contact:
  assumes "waitingForNumber w"
    and "10 \<le> digit_count (input w)" "digit_count (input w) \<le> 15"
    and "filter (\<lambda>m. m_role m = Model) (messages w) \<noteq> []"
    and "m_content (last (filter (\<lambda>m. m_role m = Model) (messages w))) \<noteq> []"
  shows "\<not> waitingForNumber (handleSend env now w)
     \<and> (\<exists>reply. m_role reply = Model \<and>
           messages (handleSend env now w)
             = messages w @ [plain_message (toString now) User (input w) now, reply])
     \<and> db_leads (handleSend env now w) = db_leads w @
           [\<lparr>l_id = toString now, l_phoneNumber = input w,
             l_queryContext =
               take 100 (m_content (last (filter (\<lambda>m. m_role m = Model) (messages w)))) @ ''...'',
             l_timestamp = now\<rparr>]"
  using handleSend_valid_waiting [OF assms(1-3), where env = env and now = now]
        handleSend_valid_messages [OF assms(1-3), where env = env and now = now]
        handleSend_valid_leads [OF assms(1-3), where env = env and now = now]
        lastContext_last_model [OF assms(4,5)]
  by simp

theorem lead_capture_on_valid_contact_witness:
  "waitingForNumber answered_while_awaiting
   \<and> digit_count (input answered_while_awaiting) = 12
   \<and> m_content (last (filter (\<lambda>m. m_role m = Model) (messages answered_while_awaiting)))
       = long_answer
   \<and> length long_answer = 125
   \<and> \<not> waitingForNumber (handleSend failing_env 5 answered_while_awaiting)
   \<and> db_leads (handleSend failing_env 5 answered_while_awaiting) =
       [\<lparr>l_id = ''5'', l_phoneNumber = ''+91 95265 69313'',
         l_queryContext =
           ''Samastha Kerala Jamiyyathul Ulama was established in 1926 to propagate the teachings of Islam and ru...'',
         l_timestamp = 5\<rparr>]"
proof -
  let ?w = "answered_while_awaiting"
  note f = answered_while_awaiting_facts
  have d: "digit_count (input ?w) = 12"
    by (simp add: f(2) digit_count_def is_digit_def)
  then have lo: "10 \<le> digit_count (input ?w)" and hi: "digit_count (input ?w) \<le> 15"
    by simp_all
  have len: "length long_answer = 125" by (simp add: long_answer_def)
  then have ne: "m_content (last (filter (\<lambda>m. m_role m = Model) (messages ?w))) \<noteq> []"
    unfolding f(5) by auto
  have cut: "take 100 long_answer
      = ''Samastha Kerala Jamiyyathul Ulama was established in 1926 to propagate the teachings of Islam and ru''"
    by (simp add: long_answer_def)
  from lead_capture_on_valid_contact [OF f(1) lo hi f(4) ne, of failing_env 5]
  have "\<not> waitingForNumber (handleSend failing_env 5 ?w)"
    and "db_leads (handleSend failing_env 5 ?w) = db_leads ?w @
           [\<lparr>l_id = toString 5, l_phoneNumber = input ?w,
             l_queryContext =
               take 100 (m_content (last (filter (\<lambda>m. m_role m = Model) (messages ?w)))) @ ''...'',
             l_timestamp = 5\<rparr>]"
    by blast+
  then show ?thesis using d len
    by (simp add: f(1,2,3,5) cut toString.simps digit_char_def)
qed

text \<open>
  C5 (as stated, refuted). The claim covers every submission whose digit count is outside
  10 to 15. A submission of white space only has no digit, and \<open>handleSend\<close> returns at its
  first line: the state is unchanged, so no validation-failure message is emitted.
\<close>

theorem blank_submission_counterexample:
  "waitingForNumber (awaiting_world\<lparr>input := ''   ''\<rparr>)
   \<and> digit_count (input (awaiting_world\<lparr>input := ''   ''\<rparr>)) = 0
   \<and> handleSend failing_env 3 (awaiting_world\<lparr>input := ''   ''\<rparr>) = awaiting_world\<lparr>input := ''   ''\<rparr>"
  by (simp add: awaiting_world_facts digit_count_def is_digit_def handleSend_blank trim_def is_space_def)

text \<open>
  C5 (amended). While a contact number is awaited, every submission that is not blank and
  whose digit count is outside 10 to 15 leaves the component waiting, appends the
  validation-failure message of the model and nothing else to the conversation, stores no
  lead, and calls neither the embedding service, the matcher nor the generator.
\<close>

theorem invalid_contact_rejected:
  assumes "waitingForNumber w" "trim (input w) \<noteq> []"
    and "digit_count (input w) < 10 \<or> 15 < digit_count (input w)"
  shows "waitingForNumber (handleSend env now w)
     \<and> messages (handleSend env now w) = messages w @
         [plain_message (toString now) Model
            ''Please enter a valid phone number (e.g., +91 95265 69313).'' now]
     \<and> db_leads (handleSend env now w) = db_leads w
     \<and> embed_calls (handleSend env now w) = embed_calls w
     \<and> matcher_calls (handleSend env now w) = matcher_calls w
     \<and> rag_calls (handleSend env now w) = rag_calls w"
  using assms by (simp add: handleSend_invalid_contact)

theorem invalid_contact_rejected_witness:
  "waitingForNumber (awaiting_world\<lparr>input := ''12345''\<rparr>)
   \<and> trim ''12345'' = ''12345''
   \<and> digit_count ''12345'' = 5
   \<and> waitingForNumber (handleSend failing_env 3 (awaiting_world\<lparr>input := ''12345''\<rparr>))
   \<and> db_leads (handleSend failing_env 3 (awaiting_world\<lparr>input := ''12345''\<rparr>)) = []
   \<and> map m_content (messages (handleSend failing_env 3 (awaiting_world\<lparr>input := ''12345''\<rparr>))) =
       map m_content (messages awaiting_world) @
         [''Please enter a valid phone number (e.g., +91 95265 69313).'']"
proof -
  let ?w = "awaiting_world\<lparr>input := ''12345''\<rparr>"
  have a: "waitingForNumber ?w" by (simp add: awaiting_world_facts)
  have t: "trim ''12345'' = ''12345''" by (simp add: trim_def is_space_def)
  have d: "digit_count ''12345'' = 5" by (simp add: digit_count_def is_digit_def)
  have nb: "trim (input ?w) \<noteq> []" by (simp add: t)
  have bad: "digit_count (input ?w) < 10 \<or> 15 < digit_count (input ?w)" by (simp add: d)
  from invalid_contact_rejected [OF a nb bad, of failing_env 3] a t d
  show ?thesis by (simp add: awaiting_world_facts plain_message_def)
qed

section \<open>Claims about the detailed-report turn\<close>

text \<open>
  C8 (as stated, refuted). The claim: the topic of the report is the most recent prior user
  query, and the default topic is used only when no prior user message exists. The source
  skips every user message whose content equals the submitted contact text. A user who
  sent \<open>9526569313\<close> as a query and then submits the same text as the contact gets the
  report on the default topic, although that query is a prior user message.
\<close>

theorem report_turn_counterexample:
  "waitingForNumber repeated_number_world
   \<and> input repeated_number_world = ''9526569313''
   \<and> map m_content (filter (\<lambda>m. m_role m = User) (messages repeated_number_world)) = [''9526569313'']
   \<and> rag_calls (handleSend failing_env 3 repeated_number_world)
       = [(''9526569313'', []), (detailedPrompt ''Samastha Kerala Jamiyyathul Ulama'', [])]"
proof -
  have nb: "trim ''9526569313'' \<noteq> []" by (simp add: trim_def is_space_def)
  have w: "waitingForNumber repeated_number_world" "input repeated_number_world = ''9526569313''"
    by (simp_all add: repeated_number_world_def handleKnowMore_def)
  have d: "digit_count ''9526569313'' = 10" by (simp add: digit_count_def is_digit_def)
  have first: "handleSend failing_env 1 (initial_world\<lparr>input := ''9526569313''\<rparr>)
      = processQuery failing_env 1 ''9526569313'' False (initial_world\<lparr>input := []\<rparr>)"
    using nb by (simp add: handleSend_def Let_def initial_world_def)
  have msgs: "map (\<lambda>m. (m_role m, m_content m)) (messages repeated_number_world)
     = [(User, ''9526569313''),
        (Model, ''I apologize, but I encountered an error. Please try again.''),
        (Model, ''To generate a **Detailed Report** for you, please verify your **Mobile Number**.'')]"
    unfolding repeated_number_world_def first
    by (simp add: handleKnowMore_def processQuery_def Let_def getEmbeddings_single
          failing_env_def initial_world_def plain_message_def)
  have users: "map m_content (filter (\<lambda>m. m_role m = User) (messages repeated_number_world)) = [''9526569313'']"
    unfolding repeated_number_world_def first
    by (simp add: handleKnowMore_def processQuery_def Let_def getEmbeddings_single
          failing_env_def initial_world_def plain_message_def)
  have topic: "topicQuery (messages repeated_number_world) ''9526569313'' = ''Samastha Kerala Jamiyyathul Ulama''"
    unfolding repeated_number_world_def first
    by (simp add: topicQuery_def handleKnowMore_def processQuery_def Let_def getEmbeddings_single
          failing_env_def initial_world_def plain_message_def)
  have before: "rag_calls repeated_number_world = [(''9526569313'', [])]"
    unfolding repeated_number_world_def first
    by (simp add: handleKnowMore_def processQuery_rag_calls retrieve_def query_embedding_def
          item_vector_def vector_of_def failing_env_def initial_world_def)
  have "rag_calls (handleSend failing_env 3 repeated_number_world) = rag_calls repeated_number_world @
           [(detailedPrompt (topicQuery (messages repeated_number_world) (input repeated_number_world)),
             retrieve failing_env (db_chunks repeated_number_world)
               (topicQuery (messages repeated_number_world) (input repeated_number_world)) 8)]"
    by (rule handleSend_valid_rag_calls) (simp_all add: w d)
  then have "rag_calls (handleSend failing_env 3 repeated_number_world)
       = [(''9526569313'', []), (detailedPrompt ''Samastha Kerala Jamiyyathul Ulama'', [])]"
    by (simp add: w topic before retrieve_def query_embedding_def item_vector_def vector_of_def
          failing_env_def)
  with w users show ?thesis by simp
qed

text \<open>
  C8 (amended). The detailed-report turn after a valid contact runs the retrieval of a
  normal turn with \<open>topK = 8\<close> instead of \<open>5\<close> (embed the topic; no match when the embedding is
  empty, else the matcher over all chunks), hands the report prompt for the topic and the
  retrieved chunks to the generator, and delivers the report on that topic. The topic is
  the content of the most recent user message whose content differs from the submitted
  contact text, and the default topic when there is no such message.
\<close>

theorem report_turn_topic_and_retrieval:
  assumes "waitingForNumber w" "10 \<le> digit_count (input w)" "digit_count (input w) \<le> 15"
  shows
    "rag_calls (handleSend env now w) = rag_calls w @
        [(detailedPrompt (topicQuery (messages w) (input w)),
          retrieve env (db_chunks w) (topicQuery (messages w) (input w)) 8)]
     \<and> rag_calls (processQuery env now q v w) = rag_calls w @ [(q, retrieve env (db_chunks w) q 5)]
     \<and> embed_calls (handleSend env now w)
          = embed_calls w @ item_calls (topicQuery (messages w) (input w))
     \<and> matcher_calls (handleSend env now w) = matcher_calls w @
          (if query_embedding env (topicQuery (messages w) (input w)) = [] then []
           else [(query_embedding env (topicQuery (messages w) (input w)), 8)])
     \<and> (\<forall>response.
          generateRAGResponse env (detailedPrompt (topicQuery (messages w) (input w)))
            (retrieve env (db_chunks w) (topicQuery (messages w) (input w)) 8) = Some response
          \<longrightarrow> m_content (last (messages (handleSend env now w)))
                = report_content (topicQuery (messages w) (input w)) (r_text response))
     \<and> ((\<forall>m\<in>set (messages w). m_role m = User \<longrightarrow> m_content m = input w)
          \<longrightarrow> topicQuery (messages w) (input w) = ''Samastha Kerala Jamiyyathul Ulama'')
     \<and> (\<forall>pre m post.
          messages w = pre @ [m] @ post \<and> m_role m = User \<and> m_content m \<noteq> input w
            \<and> (\<forall>m'\<in>set post. m_role m' = User \<longrightarrow> m_content m' = input w)
          \<longrightarrow> topicQuery (messages w) (input w) = m_content m)"
proof -
  have default: "(\<forall>m\<in>set (messages w). m_role m = User \<longrightarrow> m_content m = input w)
          \<longrightarrow> topicQuery (messages w) (input w) = ''Samastha Kerala Jamiyyathul Ulama''"
    using topicQuery_default [of "messages w" "input w"] by blast
  have recent: "\<forall>pre m post.
          messages w = pre @ [m] @ post \<and> m_role m = User \<and> m_content m \<noteq> input w
            \<and> (\<forall>m'\<in>set post. m_role m' = User \<longrightarrow> m_content m' = input w)
          \<longrightarrow> topicQuery (messages w) (input w) = m_content m"
    using topicQuery_most_recent [of "messages w" _ _ _ "input w"] by blast
  have report: "\<forall>response.
          generateRAGResponse env (detailedPrompt (topicQuery (messages w) (input w)))
            (retrieve env (db_chunks w) (topicQuery (messages w) (input w)) 8) = Some response
          \<longrightarrow> m_content (last (messages (handleSend env now w)))
                = report_content (topicQuery (messages w) (input w)) (r_text response)"
    using handleSend_valid_report_message [OF assms] by blast
  show ?thesis
    using handleSend_valid_rag_calls [OF assms, where env = env and now = now]
          handleSend_valid_embed_calls [OF assms, where env = env and now = now]
          handleSend_valid_matcher_calls [OF assms, where env = env and now = now]
          processQuery_rag_calls [of env now q v w] default recent report
    by (intro conjI) assumption+
qed

lemma asked_world_facts:
  "waitingForNumber asked_world"
  "input asked_world = ''+91 95265 69313''"
  "db_chunks asked_world = [history_chunk]"
  "rag_calls asked_world = [(''When was Samastha founded?'', [history_chunk])]"
  "messages asked_world =
     [] @ [(plain_message ''1'' User ''When was Samastha founded?'' 1)\<lparr>m_isAudio := Some False\<rparr>] @
     [(plain_message ''2'' Model ''In 1926.'' 1)
        \<lparr>m_language := Some ''Detected'', m_citations := Some [''Samastha History Overview'']\<rparr>,
      plain_message ''2'' Model
        ''To generate a **Detailed Report** for you, please verify your **Mobile Number**.'' 2]"
proof -
  have nb: "trim ''When was Samastha founded?'' \<noteq> []" by (simp add: trim_def is_space_def)
  have first: "handleSend answering_env 1
        (initial_world\<lparr>db_chunks := [history_chunk], input := ''When was Samastha founded?''\<rparr>)
      = processQuery answering_env 1 ''When was Samastha founded?'' False
          (initial_world\<lparr>db_chunks := [history_chunk], input := []\<rparr>)"
    using nb by (simp add: handleSend_def Let_def initial_world_def)
  have e: "query_embedding answering_env ''When was Samastha founded?'' = [1]"
    using nb by (simp add: query_embedding_def item_vector_def is_blank_def vector_of_def
        answering_env_def)
  have m: "findBestMatches [1] [history_chunk] 5 = [history_chunk]"
    by (simp add: findBestMatches_def)
  show "waitingForNumber asked_world" "input asked_world = ''+91 95265 69313''"
    by (simp_all add: asked_world_def handleKnowMore_def)
  show "db_chunks asked_world = [history_chunk]"
    unfolding asked_world_def first
    by (simp add: handleKnowMore_def processQuery_def Let_def getEmbeddings_single
          initial_world_def split: option.splits)
  show "rag_calls asked_world = [(''When was Samastha founded?'', [history_chunk])]"
    unfolding asked_world_def first
    by (simp add: handleKnowMore_def processQuery_rag_calls retrieve_def e m initial_world_def)
  show "messages asked_world =
     [] @ [(plain_message ''1'' User ''When was Samastha founded?'' 1)\<lparr>m_isAudio := Some False\<rparr>] @
     [(plain_message ''2'' Model ''In 1926.'' 1)
        \<lparr>m_language := Some ''Detected'', m_citations := Some [''Samastha History Overview'']\<rparr>,
      plain_message ''2'' Model
        ''To generate a **Detailed Report** for you, please verify your **Mobile Number**.'' 2]"
    unfolding asked_world_def first
    using nb e [unfolded query_embedding_def] m
    by (simp add: handleKnowMore_def processQuery_def Let_def getEmbeddings_single
          answering_env_def initial_world_def toString.simps digit_char_def history_chunk_def)
qed

theorem report_turn_topic_and_retrieval_witness:
  "waitingForNumber asked_world
   \<and> digit_count (input asked_world) = 12
   \<and> rag_calls (handleSend answering_env 3 asked_world)
       = [(''When was Samastha founded?'', [history_chunk]),
          (detailedPrompt ''When was Samastha founded?'', [history_chunk])]
   \<and> matcher_calls (handleSend answering_env 3 asked_world) = matcher_calls asked_world @ [([1], 8)]
   \<and> m_content (last (messages (handleSend answering_env 3 asked_world)))
       = report_content ''When was Samastha founded?'' ''In 1926.''"
proof -
  have a: "waitingForNumber asked_world" by (rule asked_world_facts)
  have d: "digit_count (input asked_world) = 12"
    by (simp add: asked_world_facts digit_count_def is_digit_def)
  then have lo: "10 \<le> digit_count (input asked_world)" and hi: "digit_count (input asked_world) \<le> 15"
    by simp_all
  note t = report_turn_topic_and_retrieval [OF a lo hi, of answering_env 3]
  have "messages asked_world = [] @ [(plain_message ''1'' User ''When was Samastha founded?'' 1)\<lparr>m_isAudio := Some False\<rparr>] @
     [(plain_message ''2'' Model ''In 1926.'' 1)
        \<lparr>m_language := Some ''Detected'', m_citations := Some [''Samastha History Overview'']\<rparr>,
      plain_message ''2'' Model
        ''To generate a **Detailed Report** for you, please verify your **Mobile Number**.'' 2]
     \<and> m_role ((plain_message ''1'' User ''When was Samastha founded?'' 1)\<lparr>m_isAudio := Some False\<rparr>) = User
     \<and> m_content ((plain_message ''1'' User ''When was Samastha founded?'' 1)\<lparr>m_isAudio := Some False\<rparr>) \<noteq> input asked_world
     \<and> (\<forall>m'\<in>set [(plain_message ''2'' Model ''In 1926.'' 1)
        \<lparr>m_language := Some ''Detected'', m_citations := Some [''Samastha History Overview'']\<rparr>,
      plain_message ''2'' Model
        ''To generate a **Detailed Report** for you, please verify your **Mobile Number**.'' 2].
          m_role m' = User \<longrightarrow> m_content m' = input asked_world)"
    using asked_world_facts(5) by (simp add: plain_message_def asked_world_facts(2))
  with t have "topicQuery (messages asked_world) (input asked_world)
      = m_content ((plain_message ''1'' User ''When was Samastha founded?'' 1)\<lparr>m_isAudio := Some False\<rparr>)"
    by blast
  then have topic: "topicQuery (messages asked_world) (input asked_world) = ''When was Samastha founded?''"
    by (simp add: plain_message_def)
  have nb: "trim ''When was Samastha founded?'' \<noteq> []" by (simp add: trim_def is_space_def)
  have e: "query_embedding answering_env ''When was Samastha founded?'' = [1]"
    using nb by (simp add: query_embedding_def item_vector_def is_blank_def vector_of_def
        answering_env_def)
  have r: "retrieve answering_env [history_chunk] ''When was Samastha founded?'' 8 = [history_chunk]"
    by (simp add: retrieve_def e findBestMatches_def)
  have g: "generateRAGResponse answering_env (detailedPrompt ''When was Samastha founded?'') [history_chunk]
      = Some \<lparr>r_text = ''In 1926.'', r_language = ''Detected'', r_citations = None\<rparr>"
    by (simp add: answering_env_def)
  note t' = t [unfolded topic]
  from t' have "rag_calls (handleSend answering_env 3 asked_world)
       = [(''When was Samastha founded?'', [history_chunk]),
          (detailedPrompt ''When was Samastha founded?'', [history_chunk])]"
    by (simp add: asked_world_facts(3,4) r)
  moreover from t' have "matcher_calls (handleSend answering_env 3 asked_world)
       = matcher_calls asked_world @ [([1], 8)]"
    by (simp add: e)
  moreover from t' g have "m_content (last (messages (handleSend answering_env 3 asked_world)))
       = report_content ''When was Samastha founded?'' ''In 1926.''"
    by (simp add: asked_world_facts(3) r)
  ultimately show ?thesis using a d by simp
qed

section \<open>Properties of the live tool call\<close>

lemma search_knowledge_base_eq:
  "search_knowledge_base env fc w =
     w\<lparr>embed_calls := embed_calls w @ item_calls (fc_query fc),
       matcher_calls := matcher_calls w @ [(query_embedding env (fc_query fc), 3)],
       tool_responses := tool_responses w @
         [\<lparr>fr_id = fc_id fc, fr_name = fc_name fc,
           fr_result = tool_result env (db_chunks w) (fc_query fc)\<rparr>]\<rparr>"
  by (simp add: search_knowledge_base_def Let_def getEmbeddings_single tool_result_def
        query_embedding_def)



lemma onmessage_single_call:
  assumes "fc_name fc = ''search_knowledge_base''"
  shows "onmessage env \<lparr>lm_audioData = None, lm_toolCall = Some [fc]\<rparr> w
           = search_knowledge_base env fc w"
  using assms by (simp add: onmessage_def)



section \<open>Claims about the live tool call\<close>




text \<open>
  C3 (the code departs from the claim). The normal turn and the report turn call the
  matcher only with a query vector that is not empty (lemmas
  \<open>processQuery_never_passes_empty_vector\<close> and \<open>handleSend_never_passes_empty_vector\<close>). The
  tool-call path has no such test: when the embedding of the query fails, \<open>findBestMatches\<close>
  is called with the empty vector, every chunk with an embedding scores \<open>NaN\<close>, and the first
  chunks of the store are sent back as if they were relevant.
\<close>

theorem live_tool_call_unguarded:
  "query_embedding failing_env ''moon sighting'' = []
   \<and> matcher_calls
       (onmessage failing_env \<lparr>lm_audioData = None, lm_toolCall = Some [moon_call]\<rparr>
          (initial_world\<lparr>db_chunks := [founding_chunk]\<rparr>)) = [([], 3)]
   \<and> tool_responses
       (onmessage failing_env \<lparr>lm_audioData = None, lm_toolCall = Some [moon_call]\<rparr>
          (initial_world\<lparr>db_chunks := [founding_chunk]\<rparr>))
       = [\<lparr>fr_id = ''call-7'', fr_name = ''search_knowledge_base'',
           fr_result = ''Samastha was established in 1926.''\<rparr>]
   \<and> matcher_calls
       (processQuery failing_env 1 ''moon sighting'' False
          (initial_world\<lparr>db_chunks := [founding_chunk]\<rparr>)) = []"
proof -
  have n: "fc_name moon_call = ''search_knowledge_base''" by (simp add: moon_call_def)
  have e: "query_embedding failing_env ''moon sighting'' = []"
    by (simp add: query_embedding_def item_vector_def vector_of_def failing_env_def)
  have m: "findBestMatches [] [founding_chunk] 3 = [founding_chunk]"
    by (simp add: findBestMatches_def)
  have res: "tool_result failing_env [founding_chunk] ''moon sighting''
      = ''Samastha was established in 1926.''"
    unfolding tool_result_def e m
    by (simp add: founding_chunk_def)
  have q: "fc_query moon_call = ''moon sighting''" by (simp add: moon_call_def)
  have store: "db_chunks (initial_world\<lparr>db_chunks := [founding_chunk]\<rparr>) = [founding_chunk]"
    by simp
  show ?thesis
    unfolding onmessage_single_call [OF n] search_knowledge_base_eq processQuery_matcher_calls
      q store e res
    by (simp add: initial_world_def moon_call_def)
qed

end
